theory Spec2Isabelle
  imports Complex_Main "HOL-Library.Multiset"
begin

section \<open>JavaScript values used by the profit estimator\<close>

text \<open>
  The estimator computes on JavaScript numbers. They are modelled as exact rationals plus
  the value \<open>NaN\<close>: rounding, overflow and the infinities of IEEE doubles are left out.
  A value the model computes can therefore differ from the code's double in its last
  places, and a comparison of two values that are equal or nearly equal in exact
  arithmetic can come out differently in the code. The statements below relate the
  results of the code's operations to each other, and their concrete instances keep away
  from the thresholds. \<open>NaN\<close> is kept because the code can produce it (a fee read through
  the prototype chain) and because every comparison with it is false.
\<close>

datatype jsnum = Num rat | NaN

fun jadd :: "jsnum \<Rightarrow> jsnum \<Rightarrow> jsnum" where
  "jadd (Num a) (Num b) = Num (a + b)"
| "jadd _ _ = NaN"

fun jsub :: "jsnum \<Rightarrow> jsnum \<Rightarrow> jsnum" where
  "jsub (Num a) (Num b) = Num (a - b)"
| "jsub _ _ = NaN"

fun jmul :: "jsnum \<Rightarrow> jsnum \<Rightarrow> jsnum" where
  "jmul (Num a) (Num b) = Num (a * b)"
| "jmul _ _ = NaN"

text \<open>
  A zero divisor gives an infinity or \<open>NaN\<close> in JavaScript. The estimator never divides by
  zero (the volume is validated, a zero depth is replaced by its default, the other divisor
  is the constant 10000), so the model returns \<open>NaN\<close> there.
\<close>

fun jdiv :: "jsnum \<Rightarrow> jsnum \<Rightarrow> jsnum" where
  "jdiv (Num a) (Num b) = (if b = 0 then NaN else Num (a / b))"
| "jdiv _ _ = NaN"

fun jmin :: "jsnum \<Rightarrow> jsnum \<Rightarrow> jsnum" where
  "jmin (Num a) (Num b) = Num (min a b)"
| "jmin _ _ = NaN"

fun jle :: "jsnum \<Rightarrow> jsnum \<Rightarrow> bool" where
  "jle (Num a) (Num b) = (a \<le> b)"
| "jle _ _ = False"

fun jlt :: "jsnum \<Rightarrow> jsnum \<Rightarrow> bool" where
  "jlt (Num a) (Num b) = (a < b)"
| "jlt _ _ = False"

fun jge :: "jsnum \<Rightarrow> jsnum \<Rightarrow> bool" where
  "jge (Num a) (Num b) = (a \<ge> b)"
| "jge _ _ = False"

fun jgt :: "jsnum \<Rightarrow> jsnum \<Rightarrow> bool" where
  "jgt (Num a) (Num b) = (a > b)"
| "jgt _ _ = False"

text \<open>
  A property of the opportunity object is either absent (\<open>None\<close>, JavaScript's
  \<open>undefined\<close>) or holds a value of its documented type. Reading an absent numeric
  property in arithmetic gives \<open>NaN\<close>.
\<close>

fun num :: "jsnum option \<Rightarrow> jsnum" where
  "num None = NaN"
| "num (Some x) = x"

text \<open>\<open>x || d\<close> on a number: \<open>undefined\<close>, \<open>NaN\<close> and \<open>0\<close> are falsy.\<close>

fun or_default :: "jsnum option \<Rightarrow> rat \<Rightarrow> jsnum" where
  "or_default (Some (Num v)) d = (if v = 0 then Num d else Num v)"
| "or_default _ d = Num d"

text \<open>\<open>s || 'unknown'\<close> on a string: \<open>undefined\<close> and the empty string are falsy.\<close>

fun or_unknown :: "string option \<Rightarrow> string" where
  "or_unknown None = ''unknown''"
| "or_unknown (Some s) = (if s = [] then ''unknown'' else s)"

subsection \<open>Fee tables and property lookup\<close>

text \<open>
  \<open>flashLoanFees\<close> and \<open>dexFees\<close> are object literals, so \<open>table[name]\<close> finds the
  table's own entries and, failing that, the members every object inherits from
  \<open>Object.prototype\<close>. An inherited member is a function or an object: it is truthy and
  converts to \<open>NaN\<close> in arithmetic.
\<close>

datatype jsprop = OwnNumber rat | Inherited

definition object_prototype_keys :: "string list" where
  "object_prototype_keys =
     [''constructor'', ''hasOwnProperty'', ''isPrototypeOf'', ''propertyIsEnumerable'',
      ''toLocaleString'', ''toString'', ''valueOf'', ''__proto__'',
      ''__defineGetter__'', ''__defineSetter__'', ''__lookupGetter__'', ''__lookupSetter__'']"

definition get_property :: "(string \<times> rat) list \<Rightarrow> string option \<Rightarrow> jsprop option" where
  "get_property table key =
     (case key of
        None \<Rightarrow> None
      | Some k \<Rightarrow>
          (case map_of table k of
             Some v \<Rightarrow> Some (OwnNumber v)
           | None \<Rightarrow> if k \<in> set object_prototype_keys then Some Inherited else None))"

fun truthy :: "jsprop option \<Rightarrow> bool" where
  "truthy None = False"
| "truthy (Some (OwnNumber v)) = (v \<noteq> 0)"
| "truthy (Some Inherited) = True"

fun to_number :: "jsprop option \<Rightarrow> jsnum" where
  "to_number None = NaN"
| "to_number (Some (OwnNumber v)) = Num v"
| "to_number (Some Inherited) = NaN"

definition flashLoanFees :: "(string \<times> rat) list" where
  "flashLoanFees = [(''venus'', 9), (''aave'', 9), (''compound'', 0)]"

definition dexFees :: "(string \<times> rat) list" where
  "dexFees =
     [(''pancakeswap'', 25), (''biswap'', 10), (''quickswap'', 30), (''sushiswap'', 30),
      (''uniswap'', 30), (''uniswap-v3'', 5), (''curve'', 4)]"

section \<open>The profit estimator\<close>

record estimator_config =
  minProfitThreshold :: rat
  maxGasPriceGwei :: rat
  maxSlippage :: rat
  reserveBuffer :: rat

definition default_config :: estimator_config where
  "default_config =
     \<lparr>minProfitThreshold = 25 / 10000, maxGasPriceGwei = 50,
      maxSlippage = 1 / 1000, reserveBuffer = 1 / 10\<rparr>"

record gas_estimates =
  flashLoanRequest :: int
  dexSwap :: int
  flashLoanRepay :: int
  totalBuffer :: int

definition gasEstimates :: gas_estimates where
  "gasEstimates =
     \<lparr>flashLoanRequest = 150000, dexSwap = 200000, flashLoanRepay = 100000,
      totalBuffer = 50000\<rparr>"

record opportunity =
  priceDelta :: "jsnum option"
  volume :: "jsnum option"
  gasPrice :: "jsnum option"
  flashLoanProvider :: "string option"
  dexA :: "string option"
  dexB :: "string option"
  liquidityA :: "jsnum option"
  liquidityB :: "jsnum option"
  ethPriceUsd :: "jsnum option"
  opp_id :: "string option"
  opp_chain :: "string option"

text \<open>
  \<open>validateOpportunity\<close>: the six required properties are present, the three numeric ones
  are not \<open>\<le> 0\<close>, and the provider and both venues have a truthy entry in their fee table.
\<close>

definition validateOpportunity :: "opportunity \<Rightarrow> bool" where
  "validateOpportunity opp =
     (if priceDelta opp = None \<or> volume opp = None \<or> gasPrice opp = None \<or>
         flashLoanProvider opp = None \<or> dexA opp = None \<or> dexB opp = None
      then False
      else if jle (num (priceDelta opp)) (Num 0) \<or> jle (num (volume opp)) (Num 0) \<or>
              jle (num (gasPrice opp)) (Num 0)
      then False
      else if \<not> truthy (get_property flashLoanFees (flashLoanProvider opp))
      then False
      else if \<not> truthy (get_property dexFees (dexA opp)) \<or>
              \<not> truthy (get_property dexFees (dexB opp))
      then False
      else True)"

definition calculateBaseProfit :: "opportunity \<Rightarrow> jsnum" where
  "calculateBaseProfit opp = jmul (num (priceDelta opp)) (num (volume opp))"

text \<open>
  \<open>ethers.parseUnits(gasPrice.toString(), 'gwei')\<close>. \<open>toString\<close> on an absent property
  raises a TypeError. A number prints in exponent notation once its magnitude reaches
  \<open>10\<^sup>2\<^sup>1\<close> or, when non-zero, falls below \<open>10\<^sup>-\<^sup>6\<close>, and \<open>NaN\<close> prints as a word;
  \<open>parseUnits\<close> rejects both, and it rejects a decimal with more than nine fraction digits.
  Otherwise the result is the price in wei, an integer.
\<close>

datatype calc_error = TypeError | InvalidNumericString | TooManyDecimals

definition parseUnits_gwei :: "jsnum option \<Rightarrow> calc_error + int" where
  "parseUnits_gwei g =
     (case g of
        None \<Rightarrow> Inl TypeError
      | Some NaN \<Rightarrow> Inl InvalidNumericString
      | Some (Num x) \<Rightarrow>
          if 10 ^ 21 \<le> \<bar>x\<bar> \<or> (x \<noteq> 0 \<and> \<bar>x\<bar> < 1 / 10 ^ 6) then Inl InvalidNumericString
          else if of_int \<lfloor>x * 10 ^ 9\<rfloor> \<noteq> x * 10 ^ 9 then Inl TooManyDecimals
          else Inr \<lfloor>x * 10 ^ 9\<rfloor>)"

record cost_breakdown =
  gasCost :: jsnum
  flashLoanFee :: jsnum
  dexFeeA :: jsnum
  dexFeeB :: jsnum
  reserveBufferCost :: jsnum

record costs_result =
  breakdown :: cost_breakdown
  total :: jsnum

definition calculateCosts :: "estimator_config \<Rightarrow> opportunity \<Rightarrow> calc_error + costs_result" where
  "calculateCosts cfg opp =
     (let totalGasUnits = flashLoanRequest gasEstimates + dexSwap gasEstimates +
                          flashLoanRepay gasEstimates + totalBuffer gasEstimates
      in case parseUnits_gwei (gasPrice opp) of
           Inl e \<Rightarrow> Inl e
         | Inr gasPriceWei \<Rightarrow>
             (let gasCostWei = totalGasUnits * gasPriceWei;
                  gasCostEth = Num (of_int gasCostWei / 10 ^ 18);
                  ethPrice = or_default (ethPriceUsd opp) 2000;
                  gasCostUsd = jmul gasCostEth ethPrice;
                  flFee = jdiv (jmul (num (volume opp))
                            (to_number (get_property flashLoanFees (flashLoanProvider opp))))
                            (Num 10000);
                  feeA = jdiv (jmul (num (volume opp))
                            (to_number (get_property dexFees (dexA opp)))) (Num 10000);
                  feeB = jdiv (jmul (num (volume opp))
                            (to_number (get_property dexFees (dexB opp)))) (Num 10000);
                  reserve = jmul (num (volume opp)) (Num (reserveBuffer cfg))
              in Inr \<lparr>breakdown = \<lparr>gasCost = gasCostUsd, flashLoanFee = flFee, dexFeeA = feeA,
                                     dexFeeB = feeB, reserveBufferCost = reserve\<rparr>,
                      total = jadd (jadd (jadd (jadd gasCostUsd flFee) feeA) feeB) reserve\<rparr>))"

definition calculateSlippageImpact :: "estimator_config \<Rightarrow> opportunity \<Rightarrow> jsnum" where
  "calculateSlippageImpact cfg opp =
     (let liqA = or_default (liquidityA opp) 1000000;
          liqB = or_default (liquidityB opp) 1000000;
          slippageA = jmul (jdiv (num (volume opp)) liqA) (Num (1 / 2));
          slippageB = jmul (jdiv (num (volume opp)) liqB) (Num (1 / 2));
          totalSlippage = jmin (jadd slippageA slippageB) (Num (maxSlippage cfg))
      in jmul totalSlippage (num (volume opp)))"

definition calculateConfidence :: "estimator_config \<Rightarrow> opportunity \<Rightarrow> rat" where
  "calculateConfidence cfg opp =
     (let c0 = 1;
          c1 = (if jgt (num (gasPrice opp)) (Num (maxGasPriceGwei cfg)) then c0 * (8 / 10) else c0);
          minLiquidity = jmin (or_default (liquidityA opp) 1000000)
                              (or_default (liquidityB opp) 1000000);
          c2 = (if jlt minLiquidity (jmul (num (volume opp)) (Num 10)) then c1 * (6 / 10) else c1);
          margin = jdiv (num (priceDelta opp)) (num (volume opp));
          c3 = (if jlt margin (Num (5 / 1000)) then c2 * (7 / 10) else c2)
      in max c3 (1 / 10))"

datatype recommendation = STRONG_BUY | BUY | WEAK_BUY | PASS

definition getRecommendation :: "estimator_config \<Rightarrow> jsnum \<Rightarrow> recommendation" where
  "getRecommendation cfg profitPct =
     (if jge profitPct (Num (1 / 100)) then STRONG_BUY
      else if jge profitPct (Num (5 / 1000)) then BUY
      else if jge profitPct (Num (minProfitThreshold cfg)) then WEAK_BUY
      else PASS)"

record estimate_metadata =
  timestamp :: int
  meta_opportunity :: string
  meta_chain :: string

record estimate =
  profitable :: bool
  baseProfit :: jsnum
  costs :: cost_breakdown
  totalCosts :: jsnum
  netProfit :: jsnum
  profitPercent :: jsnum
  slippageImpact :: jsnum
  threshold :: rat
  confidence :: rat
  recommendation :: recommendation
  metadata :: estimate_metadata

text \<open>
  The three shapes \<open>estimateProfit\<close> returns: the early return after a failed validation
  (\<open>profitable: false\<close> and a reason), the object built in the \<open>catch\<close> block
  (\<open>profitable: false\<close>, a reason and the error), and the full estimate, which has no
  reason property.
\<close>

datatype estimate_result =
    Rejected string
  | Failed string calc_error
  | Estimate estimate

text \<open>
  \<open>estimateProfit\<close>. The reading of the clock, \<open>Date.now()\<close>, is the parameter \<open>now\<close>; the
  configuration is the estimator object's \<open>config\<close> at the time of the call.
\<close>

definition estimateProfit :: "estimator_config \<Rightarrow> int \<Rightarrow> opportunity \<Rightarrow> estimate_result" where
  "estimateProfit cfg now opp =
     (if \<not> validateOpportunity opp then Rejected ''Invalid opportunity data''
      else
        (let base = calculateBaseProfit opp
         in case calculateCosts cfg opp of
              Inl e \<Rightarrow> Failed ''Calculation error'' e
            | Inr cs \<Rightarrow>
                (let net = jsub base (total cs);
                     slippage = calculateSlippageImpact cfg opp;
                     adjustedNetProfit = jsub net slippage;
                     adjustedProfitPercent = jdiv adjustedNetProfit (num (volume opp));
                     finalProfitable = jge adjustedProfitPercent (Num (minProfitThreshold cfg))
                 in Estimate
                      \<lparr>profitable = finalProfitable, baseProfit = base, costs = breakdown cs,
                       totalCosts = total cs, netProfit = adjustedNetProfit,
                       profitPercent = adjustedProfitPercent, slippageImpact = slippage,
                       threshold = minProfitThreshold cfg,
                       confidence = calculateConfidence cfg opp,
                       recommendation = getRecommendation cfg adjustedProfitPercent,
                       metadata = \<lparr>timestamp = now,
                                   meta_opportunity = or_unknown (opp_id opp),
                                   meta_chain = or_unknown (opp_chain opp)\<rparr>\<rparr>)))"

fun result_profitable :: "estimate_result \<Rightarrow> bool" where
  "result_profitable (Rejected r) = False"
| "result_profitable (Failed r e) = False"
| "result_profitable (Estimate est) = profitable est"

fun result_reason :: "estimate_result \<Rightarrow> string option" where
  "result_reason (Rejected r) = Some r"
| "result_reason (Failed r e) = Some r"
| "result_reason (Estimate est) = None"

section \<open>The MCP coordinator\<close>

text \<open>
  The coordinator keeps one entry per registered client in each of its maps (\<open>clients\<close>,
  \<open>capabilities\<close>, \<open>healthStatus\<close>, \<open>requestMetrics\<close>, \<open>circuitBreakers\<close>,
  \<open>loadBalancingStats\<close>); \<open>initializeClient\<close> and \<open>initializeClientTracking\<close> create them
  together. A registered client is therefore one record holding its entry of every map, and
  the coordinator maps client names to these records; \<open>clientNames\<close> is the iteration order
  of the maps. Times are milliseconds, as \<open>Date.now()\<close> returns them.
\<close>

datatype strategy = RoundRobin | LeastLoaded | Fastest | Priority | Weighted | OtherStrategy

datatype priority = Critical | High | Medium | Low

record coordinator_config =
  healthCheckInterval :: int
  maxRetries :: nat
  retryDelay :: int
  maxDelay :: int
  loadBalancingStrategy :: strategy
  circuitBreakerThreshold :: nat
  circuitBreakerTimeout :: int
  requestTimeout :: int

definition default_coordinator_config :: coordinator_config where
  "default_coordinator_config =
     \<lparr>healthCheckInterval = 30000, maxRetries = 3, retryDelay = 1000, maxDelay = 10000,
      loadBalancingStrategy = RoundRobin, circuitBreakerThreshold = 5,
      circuitBreakerTimeout = 60000, requestTimeout = 30000\<rparr>"

record client_info =
  isHealthy :: bool
  lastHealthCheck :: int
  requestCount :: int
  errorCount :: nat
  avgResponseTime :: rat
  lastRequestTime :: "int option"

datatype health_state = Healthy | Unhealthy

record health_status =
  status :: health_state
  uptime :: int
  lastError :: "string option"
  consecutiveErrors :: nat
  health_lastHealthCheck :: int

text \<open>\<open>minResponseTime\<close> starts at \<open>Infinity\<close>, here \<open>None\<close>.\<close>

record request_metrics =
  totalRequests :: nat
  successfulRequests :: nat
  failedRequests :: nat
  metrics_avgResponseTime :: rat
  minResponseTime :: "rat option"
  maxResponseTime :: rat
  metrics_lastRequestTime :: "int option"
  requestsPerMinute :: nat

record circuit_breaker =
  isOpen :: bool
  failureCount :: nat
  lastFailureTime :: "int option"
  nextRetryTime :: "int option"

record load_stats =
  weight :: rat
  currentLoad :: int
  averageLoad :: rat
  stats_priority :: priority

record provider =
  capabilities :: "string list"
  configPriority :: priority
  clientInfo :: client_info
  health :: health_status
  metrics :: request_metrics
  breaker :: circuit_breaker
  loadStats :: load_stats

record coordinator =
  config :: coordinator_config
  initialized :: bool
  clientNames :: "string list"
  clients :: "string \<Rightarrow> provider option"
  roundRobinCounters :: "string \<Rightarrow> nat option"

text \<open>The entries \<open>initializeClient\<close> and \<open>initializeClientTracking\<close> create for a client.\<close>

definition initializeClientTracking :: "string list \<Rightarrow> priority \<Rightarrow> int \<Rightarrow> provider" where
  "initializeClientTracking caps prio now =
     \<lparr>capabilities = caps, configPriority = prio,
      clientInfo = \<lparr>isHealthy = True, lastHealthCheck = now, requestCount = 0, errorCount = 0,
                    avgResponseTime = 0, lastRequestTime = None\<rparr>,
      health = \<lparr>status = Healthy, uptime = 100, lastError = None, consecutiveErrors = 0,
                health_lastHealthCheck = now\<rparr>,
      metrics = \<lparr>totalRequests = 0, successfulRequests = 0, failedRequests = 0,
                 metrics_avgResponseTime = 0, minResponseTime = None, maxResponseTime = 0,
                 metrics_lastRequestTime = None, requestsPerMinute = 0\<rparr>,
      breaker = \<lparr>isOpen = False, failureCount = 0, lastFailureTime = None,
                 nextRetryTime = None\<rparr>,
      loadStats = \<lparr>weight = 1, currentLoad = 0, averageLoad = 0, stats_priority = prio\<rparr>\<rparr>"

definition update_client :: "string \<Rightarrow> (provider \<Rightarrow> provider) \<Rightarrow> coordinator \<Rightarrow> coordinator" where
  "update_client name f st =
     (case clients st name of
        None \<Rightarrow> st
      | Some p \<Rightarrow> st\<lparr>clients := (clients st)(name \<mapsto> f p)\<rparr>)"

definition update_all_clients :: "(provider \<Rightarrow> provider) \<Rightarrow> coordinator \<Rightarrow> coordinator" where
  "update_all_clients f st = st\<lparr>clients := (\<lambda>name. map_option f (clients st name))\<rparr>"

subsection \<open>Selection\<close>

definition available :: "provider \<Rightarrow> bool" where
  "available p \<longleftrightarrow> isHealthy (clientInfo p) \<and> \<not> isOpen (breaker p)"

definition getClientsForCapability :: "coordinator \<Rightarrow> string \<Rightarrow> string list" where
  "getClientsForCapability st capability =
     filter (\<lambda>name. case clients st name of
                       None \<Rightarrow> False
                     | Some p \<Rightarrow> capability \<in> set (capabilities p) \<and> available p)
            (clientNames st)"

fun join_names :: "string list \<Rightarrow> string" where
  "join_names [] = []"
| "join_names [x] = x"
| "join_names (x # y # ys) = x @ '','' @ join_names (y # ys)"

text \<open>
  Each selector returns \<open>None\<close> where the source reads an element of an empty array;
  \<open>routeRequest\<close> and \<open>attemptFailover\<close> only select from a non-empty list.
\<close>

definition selectByRoundRobin :: "string list \<Rightarrow> coordinator \<Rightarrow> string option \<times> coordinator" where
  "selectByRoundRobin availableClients st =
     (let key = join_names availableClients;
          currentIndex = (case roundRobinCounters st key of None \<Rightarrow> 0 | Some i \<Rightarrow> i);
          selected = (if availableClients = [] then None
                      else Some (availableClients ! (currentIndex mod length availableClients)))
      in (selected, st\<lparr>roundRobinCounters := (roundRobinCounters st)(key \<mapsto> currentIndex + 1)\<rparr>))"

definition load_of :: "coordinator \<Rightarrow> string \<Rightarrow> int" where
  "load_of st name = (case clients st name of None \<Rightarrow> 0 | Some p \<Rightarrow> requestCount (clientInfo p))"

definition selectByLeastLoaded :: "string list \<Rightarrow> coordinator \<Rightarrow> string option" where
  "selectByLeastLoaded availableClients st =
     (case availableClients of
        [] \<Rightarrow> None
      | first # _ \<Rightarrow>
          Some (fst (fold (\<lambda>name (best, minLoad).
                             if load_of st name < minLoad then (name, load_of st name)
                             else (best, minLoad))
                          availableClients (first, load_of st first))))"

text \<open>\<open>avgResponseTime || Infinity\<close>: an average of \<open>0\<close> counts as infinitely slow.\<close>

definition response_time_of :: "coordinator \<Rightarrow> string \<Rightarrow> rat option" where
  "response_time_of st name =
     (case clients st name of
        None \<Rightarrow> None
      | Some p \<Rightarrow> if avgResponseTime (clientInfo p) = 0 then None
                  else Some (avgResponseTime (clientInfo p)))"

fun faster :: "rat option \<Rightarrow> rat option \<Rightarrow> bool" where
  "faster (Some a) (Some b) = (a < b)"
| "faster (Some a) None = True"
| "faster None _ = False"

definition selectByFastest :: "string list \<Rightarrow> coordinator \<Rightarrow> string option" where
  "selectByFastest availableClients st =
     (case availableClients of
        [] \<Rightarrow> None
      | first # _ \<Rightarrow>
          Some (fst (fold (\<lambda>name (best, minTime).
                             if faster (response_time_of st name) minTime
                             then (name, response_time_of st name)
                             else (best, minTime))
                          availableClients (first, response_time_of st first))))"

text \<open>\<open>priorityOrder[priority] || 999\<close>: the rank \<open>0\<close> of \<open>critical\<close> is falsy.\<close>

fun priority_rank :: "priority \<Rightarrow> nat" where
  "priority_rank Critical = 999"
| "priority_rank High = 1"
| "priority_rank Medium = 2"
| "priority_rank Low = 3"

definition rank_of :: "coordinator \<Rightarrow> string \<Rightarrow> nat" where
  "rank_of st name =
     (case clients st name of None \<Rightarrow> 999 | Some p \<Rightarrow> priority_rank (configPriority p))"

definition selectByPriority :: "string list \<Rightarrow> coordinator \<Rightarrow> string option" where
  "selectByPriority availableClients st =
     (case availableClients of
        [] \<Rightarrow> None
      | first # _ \<Rightarrow>
          Some (fst (fold (\<lambda>name (best, highest).
                             if rank_of st name < highest then (name, rank_of st name)
                             else (best, highest))
                          availableClients (first, rank_of st first))))"

definition weight_of :: "coordinator \<Rightarrow> string \<Rightarrow> rat" where
  "weight_of st name = (case clients st name of None \<Rightarrow> 1 | Some p \<Rightarrow> weight (loadStats p))"

fun pick_weighted :: "coordinator \<Rightarrow> rat \<Rightarrow> string list \<Rightarrow> string option" where
  "pick_weighted st random [] = None"
| "pick_weighted st random (name # rest) =
     (if random - weight_of st name \<le> 0 then Some name
      else pick_weighted st (random - weight_of st name) rest)"

text \<open>\<open>random01\<close> is the value of \<open>Math.random()\<close>.\<close>

definition selectByWeight :: "string list \<Rightarrow> rat \<Rightarrow> coordinator \<Rightarrow> string option" where
  "selectByWeight availableClients random01 st =
     (let totalWeight = sum_list (map (weight_of st) availableClients)
      in case pick_weighted st (random01 * totalWeight) availableClients of
           Some name \<Rightarrow> Some name
         | None \<Rightarrow> (case availableClients of [] \<Rightarrow> None | first # _ \<Rightarrow> Some first))"

definition selectClient ::
  "string list \<Rightarrow> strategy option \<Rightarrow> rat \<Rightarrow> coordinator \<Rightarrow> string option \<times> coordinator" where
  "selectClient availableClients optStrategy random01 st =
     (case (case optStrategy of None \<Rightarrow> loadBalancingStrategy (config st) | Some s \<Rightarrow> s) of
        RoundRobin \<Rightarrow> selectByRoundRobin availableClients st
      | LeastLoaded \<Rightarrow> (selectByLeastLoaded availableClients st, st)
      | Fastest \<Rightarrow> (selectByFastest availableClients st, st)
      | Priority \<Rightarrow> (selectByPriority availableClients st, st)
      | Weighted \<Rightarrow> (selectByWeight availableClients random01 st, st)
      | OtherStrategy \<Rightarrow> selectByRoundRobin availableClients st)"

subsection \<open>Recording successes and failures\<close>

definition updateSuccessMetrics :: "rat \<Rightarrow> provider \<Rightarrow> provider" where
  "updateSuccessMetrics responseTime p =
     (let ci = clientInfo p;
          avg = (if avgResponseTime ci = 0 then responseTime
                 else avgResponseTime ci * (8 / 10) + responseTime * (2 / 10));
          m = metrics p;
          cb = breaker p;
          ls = loadStats p
      in p\<lparr>clientInfo := ci\<lparr>avgResponseTime := avg, isHealthy := True\<rparr>,
           metrics := m\<lparr>successfulRequests := successfulRequests m + 1,
                        metrics_avgResponseTime := avg,
                        minResponseTime := (case minResponseTime m of
                                              None \<Rightarrow> Some responseTime
                                            | Some x \<Rightarrow> Some (min x responseTime)),
                        maxResponseTime := max (maxResponseTime m) responseTime\<rparr>,
           breaker := (if isOpen cb then cb\<lparr>isOpen := False, failureCount := 0\<rparr> else cb),
           health := (health p)\<lparr>status := Healthy, consecutiveErrors := 0\<rparr>,
           loadStats := ls\<lparr>weight := min (weight ls * (11 / 10)) 2\<rparr>\<rparr>)"

definition updateFailureMetrics :: "coordinator_config \<Rightarrow> string \<Rightarrow> int \<Rightarrow> provider \<Rightarrow> provider" where
  "updateFailureMetrics cfg message now p =
     (let ci = (clientInfo p)\<lparr>errorCount := errorCount (clientInfo p) + 1\<rparr>;
          m = (metrics p)\<lparr>failedRequests := failedRequests (metrics p) + 1\<rparr>;
          h = (health p)\<lparr>consecutiveErrors := consecutiveErrors (health p) + 1,
                         lastError := Some message\<rparr>;
          cb = (breaker p)\<lparr>failureCount := failureCount (breaker p) + 1,
                           lastFailureTime := Some now\<rparr>;
          cb' = (if failureCount cb \<ge> circuitBreakerThreshold cfg
                 then cb\<lparr>isOpen := True, nextRetryTime := Some (now + circuitBreakerTimeout cfg)\<rparr>
                 else cb);
          unhealthy = (consecutiveErrors h \<ge> 3);
          ls = loadStats p
      in p\<lparr>clientInfo := (if unhealthy then ci\<lparr>isHealthy := False\<rparr> else ci),
           metrics := m,
           health := (if unhealthy then h\<lparr>status := Unhealthy\<rparr> else h),
           breaker := cb',
           loadStats := ls\<lparr>weight := max (weight ls * (8 / 10)) (1 / 10)\<rparr>\<rparr>)"

subsection \<open>Routing\<close>

text \<open>
  A request reaches its client through \<open>withTimeout(withRetry(() => client[method](params)))\<close>.
  The retry loop makes up to \<open>maxRetries\<close> attempts and sleeps
  \<open>min (retryDelay * 2 ^ (attempt - 1)) maxDelay\<close> after a failed attempt that is not the last.
  The environment decides every attempt: it succeeds or it fails with a message, after
  some milliseconds. \<open>withRetry\<close> returns the times at which the client was called and how
  the loop ended: resolved at a time, or rejected at a time with the last error, which is
  \<open>undefined\<close> (\<open>None\<close>) when the loop made no attempt.
\<close>

datatype attempt_outcome = AttemptSucceeded int | AttemptFailed string int

datatype retry_result = RetryResolved int | RetryRejected "string option" int

function withRetry ::
  "coordinator_config \<Rightarrow> (nat \<Rightarrow> attempt_outcome) \<Rightarrow> nat \<Rightarrow> nat \<Rightarrow> int \<Rightarrow> string option
     \<Rightarrow> int list \<times> retry_result" where
  "withRetry cfg operation retries attempt now lastErr =
     (if attempt > retries then ([], RetryRejected lastErr now)
      else (case operation attempt of
              AttemptSucceeded elapsed \<Rightarrow> ([now], RetryResolved (now + elapsed))
            | AttemptFailed message elapsed \<Rightarrow>
                (if attempt < retries
                 then (case withRetry cfg operation retries (attempt + 1)
                              (now + elapsed +
                               min (retryDelay cfg * 2 ^ (attempt - 1)) (maxDelay cfg))
                              (Some message) of
                         (callTimes, res) \<Rightarrow> (now # callTimes, res))
                 else ([now], RetryRejected (Some message) (now + elapsed)))))"
  by pat_completeness auto
termination
  by (relation "measure (\<lambda>(cfg, operation, retries, attempt, now, lastErr).
                            Suc retries - attempt)") auto

declare withRetry.simps [simp del]

fun settle_time :: "retry_result \<Rightarrow> int" where
  "settle_time (RetryResolved t) = t"
| "settle_time (RetryRejected e t) = t"

text \<open>
  \<open>withTimeout\<close> races the loop against a timer: unless the loop has settled before the
  deadline, the request is rejected at the deadline with \<open>Request timeout\<close>. The race
  does not stop the loop, which goes on calling the client; what those later attempts
  return is dropped.
\<close>

definition withTimeout :: "int \<Rightarrow> int \<Rightarrow> retry_result \<Rightarrow> retry_result" where
  "withTimeout startTime timeout res =
     (if settle_time res < startTime + timeout then res
      else RetryRejected (Some ''Request timeout'') (startTime + timeout))"

datatype route_error =
    NotInitialized | NoHealthyClients | NoAlternativeClients | ClientFailed string
  | UndefinedClient | UndefinedError

definition beginRequest :: "int \<Rightarrow> provider \<Rightarrow> provider" where
  "beginRequest startTime p =
     p\<lparr>clientInfo := (clientInfo p)\<lparr>requestCount := requestCount (clientInfo p) + 1,
                                     lastRequestTime := Some startTime\<rparr>,
       metrics := (metrics p)\<lparr>totalRequests := totalRequests (metrics p) + 1\<rparr>\<rparr>"

definition endRequest :: "provider \<Rightarrow> provider" where
  "endRequest p = p\<lparr>clientInfo := (clientInfo p)\<lparr>requestCount := requestCount (clientInfo p) - 1\<rparr>\<rparr>"

text \<open>
  \<open>updateFailureMetrics\<close> when the error is \<open>undefined\<close>: the three counters are
  incremented, then reading \<open>error.message\<close> raises a TypeError and the rest is skipped.
\<close>

definition updateFailureMetricsUndefined :: "provider \<Rightarrow> provider" where
  "updateFailureMetricsUndefined p =
     p\<lparr>clientInfo := (clientInfo p)\<lparr>errorCount := errorCount (clientInfo p) + 1\<rparr>,
       metrics := (metrics p)\<lparr>failedRequests := failedRequests (metrics p) + 1\<rparr>,
       health := (health p)\<lparr>consecutiveErrors := consecutiveErrors (health p) + 1\<rparr>\<rparr>"

text \<open>
  A call of the client as a request's trace records it: the client, the time, and whether
  the client's breaker was open at that time.
\<close>

record client_call =
  callee :: string
  calledAt :: int
  breakerOpenAtCall :: bool

definition breaker_open :: "coordinator \<Rightarrow> string \<Rightarrow> bool" where
  "breaker_open st name = (case clients st name of None \<Rightarrow> False | Some p \<Rightarrow> isOpen (breaker p))"

text \<open>
  The part of \<open>executeRequest\<close> up to the recording of the outcome: the counters of the
  request, the call through \<open>withTimeout(withRetry(...))\<close>, and \<open>updateSuccessMetrics\<close> or
  \<open>updateFailureMetrics\<close>. An attempt made at or after the deadline of a request that timed
  out finds the client as the recorded failure left it.
\<close>

definition callClient ::
  "(nat \<Rightarrow> attempt_outcome) \<Rightarrow> string \<Rightarrow> int \<Rightarrow> coordinator
     \<Rightarrow> retry_result \<times> client_call list \<times> coordinator" where
  "callClient operation clientName startTime st =
     (let st1 = update_client clientName (beginRequest startTime) st;
          retried = withRetry (config st) operation (maxRetries (config st)) 1 startTime None;
          deadline = startTime + requestTimeout (config st);
          outcome = withTimeout startTime (requestTimeout (config st)) (snd retried);
          st2 = (case outcome of
                   RetryResolved t \<Rightarrow>
                     update_client clientName (updateSuccessMetrics (of_int (t - startTime))) st1
                 | RetryRejected None t \<Rightarrow>
                     update_client clientName updateFailureMetricsUndefined st1
                 | RetryRejected (Some message) t \<Rightarrow>
                     update_client clientName (updateFailureMetrics (config st) message t) st1);
          timedOut = \<not> settle_time (snd retried) < deadline
      in (outcome,
          map (\<lambda>t. \<lparr>callee = clientName, calledAt = t,
                     breakerOpenAtCall =
                       breaker_open (if timedOut \<and> deadline \<le> t then st2 else st1) clientName\<rparr>)
              (fst retried),
          st2))"

text \<open>\<open>executeRequest\<close> as \<open>attemptFailover\<close> calls it, with \<open>enableFailover: false\<close>.\<close>

definition executeRequestNoFailover ::
  "(string \<Rightarrow> nat \<Rightarrow> attempt_outcome) \<Rightarrow> string \<Rightarrow> int \<Rightarrow> coordinator
     \<Rightarrow> (route_error + string) \<times> client_call list \<times> coordinator" where
  "executeRequestNoFailover env clientName startTime st =
     (case clients st clientName of
        None \<Rightarrow> (Inl UndefinedClient, [], st)
      | Some _ \<Rightarrow>
          (case callClient (env clientName) clientName startTime st of
             (RetryResolved t, calls, st2) \<Rightarrow>
               (Inr clientName, calls, update_client clientName endRequest st2)
           | (RetryRejected None t, calls, st2) \<Rightarrow>
               (Inl UndefinedError, calls, update_client clientName endRequest st2)
           | (RetryRejected (Some message) t, calls, st2) \<Rightarrow>
               (Inl (ClientFailed message), calls, update_client clientName endRequest st2)))"

definition failoverCandidates :: "coordinator \<Rightarrow> string \<Rightarrow> string list" where
  "failoverCandidates st failedClient =
     (let failedCapabilities =
            (case clients st failedClient of None \<Rightarrow> [] | Some p \<Rightarrow> capabilities p)
      in filter (\<lambda>name. name \<noteq> failedClient \<and>
                   (case clients st name of
                      None \<Rightarrow> False
                    | Some p \<Rightarrow> list_ex (\<lambda>cap. cap \<in> set failedCapabilities) (capabilities p) \<and>
                                available p))
                (clientNames st))"

definition attemptFailover ::
  "(string \<Rightarrow> nat \<Rightarrow> attempt_outcome) \<Rightarrow> string \<Rightarrow> int \<Rightarrow> strategy option \<Rightarrow> rat \<Rightarrow> coordinator
     \<Rightarrow> (route_error + string) \<times> client_call list \<times> coordinator" where
  "attemptFailover env failedClient now optStrategy random01 st =
     (let alternativeClients = failoverCandidates st failedClient
      in if alternativeClients = [] then (Inl NoAlternativeClients, [], st)
         else (case selectClient alternativeClients optStrategy random01 st of
                 (None, st') \<Rightarrow> (Inl UndefinedClient, [], st')
               | (Some alternativeClient, st') \<Rightarrow>
                   executeRequestNoFailover env alternativeClient now st'))"

text \<open>
  \<open>executeRequest\<close>. \<open>randomFailover\<close> is the value \<open>Math.random()\<close> returns if the failover
  selects by weight. With an \<open>undefined\<close> error the \<open>catch\<close> block raises before it reaches
  the failover.
\<close>

definition executeRequest ::
  "(string \<Rightarrow> nat \<Rightarrow> attempt_outcome) \<Rightarrow> bool \<Rightarrow> string \<Rightarrow> int \<Rightarrow> strategy option \<Rightarrow> rat
     \<Rightarrow> coordinator \<Rightarrow> (route_error + string) \<times> client_call list \<times> coordinator" where
  "executeRequest env enableFailover clientName startTime optStrategy randomFailover st =
     (case clients st clientName of
        None \<Rightarrow> (Inl UndefinedClient, [], st)
      | Some _ \<Rightarrow>
          (case callClient (env clientName) clientName startTime st of
             (RetryResolved t, calls, st2) \<Rightarrow>
               (Inr clientName, calls, update_client clientName endRequest st2)
           | (RetryRejected None t, calls, st2) \<Rightarrow>
               (Inl UndefinedError, calls, update_client clientName endRequest st2)
           | (RetryRejected (Some message) t, calls, st2) \<Rightarrow>
               (if enableFailover
                then (case attemptFailover env clientName t optStrategy randomFailover st2 of
                        (res, calls2, st3) \<Rightarrow>
                          (res, calls @ calls2, update_client clientName endRequest st3))
                else (Inl (ClientFailed message), calls,
                      update_client clientName endRequest st2))))"

definition routeRequest ::
  "(string \<Rightarrow> nat \<Rightarrow> attempt_outcome) \<Rightarrow> string \<Rightarrow> int \<Rightarrow> strategy option \<Rightarrow> bool \<Rightarrow> rat \<Rightarrow> rat
     \<Rightarrow> coordinator \<Rightarrow> (route_error + string) \<times> client_call list \<times> coordinator" where
  "routeRequest env capability now optStrategy enableFailover random01 randomFailover st =
     (if \<not> initialized st then (Inl NotInitialized, [], st)
      else (let availableClients = getClientsForCapability st capability
            in if availableClients = [] then (Inl NoHealthyClients, [], st)
               else (case selectClient availableClients optStrategy random01 st of
                       (None, st') \<Rightarrow> (Inl UndefinedClient, [], st')
                     | (Some selectedClient, st') \<Rightarrow>
                         executeRequest env enableFailover selectedClient now optStrategy
                           randomFailover st')))"

subsection \<open>Health monitoring\<close>

datatype probe = ProbePassed | ProbeFailed string

definition checkClientHealth :: "probe \<Rightarrow> int \<Rightarrow> provider \<Rightarrow> provider" where
  "checkClientHealth result now p =
     (case result of
        ProbePassed \<Rightarrow>
          p\<lparr>health := (health p)\<lparr>status := Healthy, lastError := None,
                                 health_lastHealthCheck := now\<rparr>,
            clientInfo := (clientInfo p)\<lparr>isHealthy := True\<rparr>\<rparr>
      | ProbeFailed message \<Rightarrow>
          p\<lparr>health := (health p)\<lparr>status := Unhealthy, lastError := Some message,
                                 health_lastHealthCheck := now\<rparr>,
            clientInfo := (clientInfo p)\<lparr>isHealthy := False\<rparr>\<rparr>)"

text \<open>\<open>now >= nextRetryTime\<close>; a \<open>null\<close> retry time compares as \<open>0\<close>.\<close>

definition checkCircuitBreaker :: "int \<Rightarrow> provider \<Rightarrow> provider" where
  "checkCircuitBreaker now p =
     (let cb = breaker p
      in if isOpen cb \<and> now \<ge> (case nextRetryTime cb of None \<Rightarrow> 0 | Some t \<Rightarrow> t)
         then p\<lparr>breaker := cb\<lparr>isOpen := False, failureCount := 0\<rparr>\<rparr>
         else p)"

definition checkCircuitBreakers :: "int \<Rightarrow> coordinator \<Rightarrow> coordinator" where
  "checkCircuitBreakers now st = update_all_clients (checkCircuitBreaker now) st"

definition updateLoadBalancingStats :: "coordinator \<Rightarrow> coordinator" where
  "updateLoadBalancingStats st =
     update_all_clients
       (\<lambda>p. let ls = loadStats p; load = requestCount (clientInfo p)
            in p\<lparr>loadStats := ls\<lparr>currentLoad := load,
                                  averageLoad := averageLoad ls * (9 / 10) + of_int load * (1 / 10)\<rparr>\<rparr>)
       st"

definition performHealthChecks :: "(string \<Rightarrow> probe) \<Rightarrow> int \<Rightarrow> coordinator \<Rightarrow> coordinator" where
  "performHealthChecks probes now st =
     updateLoadBalancingStats
       (checkCircuitBreakers now
          (fold (\<lambda>name s. update_client name (checkClientHealth (probes name) now) s)
                (clientNames st) st))"

definition handleClientError :: "provider \<Rightarrow> provider" where
  "handleClientError p =
     p\<lparr>health := (health p)\<lparr>consecutiveErrors := consecutiveErrors (health p) + 1\<rparr>\<rparr>"

definition handleClientReconnected :: "provider \<Rightarrow> provider" where
  "handleClientReconnected p =
     p\<lparr>health := (health p)\<lparr>status := Healthy, consecutiveErrors := 0\<rparr>,
       clientInfo := (clientInfo p)\<lparr>isHealthy := True\<rparr>\<rparr>"

subsection \<open>Runs of the coordinator\<close>

text \<open>
  The operations that change the coordinator after start-up: a routed request, a round of
  the health monitor, and the two client events. A run applies a list of them in order and
  collects the calls made. Requests are taken one at a time, each with all its attempts;
  a request that begins while another is still under way is outside these runs.
\<close>

datatype event =
    Route "string \<Rightarrow> nat \<Rightarrow> attempt_outcome" string int "strategy option" bool rat rat
  | HealthRound "string \<Rightarrow> probe" int
  | ClientError string
  | ClientReconnected string

fun step :: "event \<Rightarrow> coordinator \<Rightarrow> client_call list \<times> coordinator" where
  "step (Route env capability now optStrategy enableFailover random01 randomFailover) st =
     (case routeRequest env capability now optStrategy enableFailover random01 randomFailover st of
        (res, calls, st') \<Rightarrow> (calls, st'))"
| "step (HealthRound probes now) st = ([], performHealthChecks probes now st)"
| "step (ClientError name) st = ([], update_client name handleClientError st)"
| "step (ClientReconnected name) st = ([], update_client name handleClientReconnected st)"

fun run :: "event list \<Rightarrow> coordinator \<Rightarrow> client_call list \<times> coordinator" where
  "run [] st = ([], st)"
| "run (e # es) st =
     (case step e st of
        (calls, st') \<Rightarrow> (case run es st' of (calls', st'') \<Rightarrow> (calls @ calls', st'')))"

section \<open>The arbitrage engine: scanning, ranking and the execution queue\<close>

text \<open>
  An opportunity as the engine receives it from the coordinator. \<open>amount\<close> and
  \<open>expectedProfit\<close> may be absent; the filter sets both. The numbers are reals, because the
  ranking takes a logarithm.
\<close>

datatype validation = Invalid string | Valid string real

record engine_opportunity =
  oppToken :: string
  oppChain :: string
  profitability :: real
  liquidity :: real
  oppConfidence :: real
  amount :: "real option"
  expectedProfit :: "real option"
  oppValidation :: "validation option"

text \<open>
  What the engine asks of its collaborators: the coordinator's answer to
  \<open>getOptimalFlashLoanProvider\<close> (an error message, or a provider, or nothing), and the gas
  price of a chain's configuration (\<open>None\<close> when \<open>getChainConfig\<close> raises, \<open>Some None\<close> when
  the configuration has no gas price).
\<close>

record engine_env =
  flashLoanProviderFor :: "engine_opportunity \<Rightarrow> string + string option"
  chainGasPrice :: "string \<Rightarrow> real option option"

definition estimateGasCost :: "engine_env \<Rightarrow> engine_opportunity \<Rightarrow> real" where
  "estimateGasCost env opp =
     (case chainGasPrice env (oppChain opp) of
        None \<Rightarrow> 1 / 100
      | Some gp \<Rightarrow>
          (let baseGasPrice = (case gp of None \<Rightarrow> 20000000000
                                        | Some g \<Rightarrow> if g = 0 then 20000000000 else g);
               estimatedGas = 500000
           in baseGasPrice * estimatedGas / 10 ^ 18))"

text \<open>A comparison with an absent number is false.\<close>

definition checkDEXLiquidity :: "engine_opportunity \<Rightarrow> bool" where
  "checkDEXLiquidity opp =
     (case amount opp of None \<Rightarrow> False | Some a \<Rightarrow> liquidity opp \<ge> a * 2)"

definition engine_validateOpportunity :: "engine_env \<Rightarrow> engine_opportunity \<Rightarrow> validation" where
  "engine_validateOpportunity env opp =
     (case flashLoanProviderFor env opp of
        Inl message \<Rightarrow> Invalid message
      | Inr None \<Rightarrow> Invalid ''No flash loan provider available''
      | Inr (Some flProvider) \<Rightarrow>
          (let gasCostEst = estimateGasCost env opp
           in if (case expectedProfit opp of None \<Rightarrow> False | Some e \<Rightarrow> gasCostEst > e * (3 / 10))
              then Invalid ''Gas costs too high''
              else if \<not> checkDEXLiquidity opp then Invalid ''Insufficient DEX liquidity''
              else Valid flProvider gasCostEst))"

definition calculateOptimalTradeSize :: "engine_opportunity \<Rightarrow> real" where
  "calculateOptimalTradeSize opp =
     (let winRate = oppConfidence opp / 100;
          avgWin = profitability opp / 100;
          avgLoss = 2 / 100;
          kellyFraction = (winRate * avgWin - (1 - winRate) * avgLoss) / avgWin;
          conservativeFraction = min kellyFraction (1 / 10)
      in max 1000 (min (liquidity opp * conservativeFraction) 100000))"

record engine_stats =
  totalScans :: nat
  opportunitiesFound :: nat
  opportunitiesExecuted :: nat
  successfulExecutions :: nat
  totalProfit :: real

record queued_opportunity =
  queuedOpportunity :: engine_opportunity
  scanId :: string
  queuedAt :: int

record engine =
  isRunning :: bool
  minProfitability :: real
  executionQueue :: "queued_opportunity list"
  stats :: engine_stats

definition new_engine :: engine where
  "new_engine =
     \<lparr>isRunning = False, minProfitability = 1 / 2, executionQueue = [],
      stats = \<lparr>totalScans = 0, opportunitiesFound = 0, opportunitiesExecuted = 0,
               successfulExecutions = 0, totalProfit = 0\<rparr>\<rparr>"

fun filterOpportunities ::
  "engine_env \<Rightarrow> engine \<Rightarrow> engine_opportunity list \<Rightarrow> engine_opportunity list" where
  "filterOpportunities env st [] = []"
| "filterOpportunities env st (opp # rest) =
     (if profitability opp < minProfitability st then filterOpportunities env st rest
      else if liquidity opp < 50000 then filterOpportunities env st rest
      else if oppConfidence opp < 70 then filterOpportunities env st rest
      else (case engine_validateOpportunity env opp of
              Invalid message \<Rightarrow> filterOpportunities env st rest
            | Valid flProvider gasCostEst \<Rightarrow>
                (let tradeSize = calculateOptimalTradeSize opp
                 in opp\<lparr>amount := Some tradeSize,
                        oppValidation := Some (Valid flProvider gasCostEst),
                        expectedProfit := Some (tradeSize * profitability opp / 100)\<rparr>
                    # filterOpportunities env st rest)))"

text \<open>
  \<open>rankOpportunities\<close> sorts with the comparator \<open>scoreB - scoreA\<close>: descending by score,
  and stable, so opportunities of equal score keep their order.
\<close>

definition score :: "engine_opportunity \<Rightarrow> real" where
  "score a = profitability a * oppConfidence a * ln (liquidity a) / 1000"

definition rankOpportunities :: "engine_opportunity list \<Rightarrow> engine_opportunity list" where
  "rankOpportunities opportunities = sort_key (\<lambda>a. - score a) opportunities"

text \<open>
  One tick of the scanner. \<open>fetched\<close> is the outcome of \<open>getArbitrageData\<close>: an error, which
  the \<open>catch\<close> block reports, or the opportunities.
\<close>

definition scanForOpportunities ::
  "engine_env \<Rightarrow> string \<Rightarrow> int \<Rightarrow> string + engine_opportunity list \<Rightarrow> engine \<Rightarrow> engine" where
  "scanForOpportunities env sid now fetched st =
     (if \<not> isRunning st then st
      else
        (let st1 = st\<lparr>stats := (stats st)\<lparr>totalScans := totalScans (stats st) + 1\<rparr>\<rparr>
         in case fetched of
              Inl message \<Rightarrow> st1
            | Inr opportunities \<Rightarrow>
                if opportunities = [] then st1
                else
                  (let validOpportunities = filterOpportunities env st opportunities;
                       rankedOpportunities = rankOpportunities validOpportunities
                   in st1\<lparr>stats := (stats st1)\<lparr>opportunitiesFound :=
                                         opportunitiesFound (stats st1) + length rankedOpportunities\<rparr>,
                          executionQueue :=
                            executionQueue st1 @
                            map (\<lambda>opp. \<lparr>queuedOpportunity = opp, scanId = sid, queuedAt = now\<rparr>)
                                rankedOpportunities\<rparr>)))"

section \<open>The same-chain detection loop\<close>

text \<open>
  \<open>SameChainArbitrage.analyzePair\<close> builds an opportunity from the market data, asks the
  estimator, and returns the opportunity with the estimate's net profit as
  \<open>estimatedProfit\<close> when the verdict is profitable, and nothing otherwise. The part from
  the estimator's call on is modelled. The net profit of a profitable estimate is a
  number, so the other case of \<open>netProfit\<close> does not arise.
\<close>

record detected_opportunity =
  detectedFrom :: opportunity
  estimatedProfit :: rat
  detectedProfitPercent :: jsnum
  detectedConfidence :: rat
  detectedRecommendation :: recommendation
  detectedCosts :: cost_breakdown

definition analyzePair_estimate ::
  "estimator_config \<Rightarrow> int \<Rightarrow> opportunity \<Rightarrow> detected_opportunity option" where
  "analyzePair_estimate cfg now opp =
     (case estimateProfit cfg now opp of
        Estimate r \<Rightarrow>
          (if profitable r
           then (case netProfit r of
                   Num profit \<Rightarrow>
                     Some \<lparr>detectedFrom = opp, estimatedProfit = profit,
                           detectedProfitPercent = profitPercent r,
                           detectedConfidence = confidence r,
                           detectedRecommendation = recommendation r,
                           detectedCosts = costs r\<rparr>
                 | NaN \<Rightarrow> None)
           else None)
      | Rejected reason \<Rightarrow> None
      | Failed reason e \<Rightarrow> None)"

text \<open>
  \<open>detectOpportunities\<close> from the analysis of the candidates on: the detected
  opportunities are sorted with the comparator \<open>b.estimatedProfit - a.estimatedProfit\<close>
  and \<open>slice(0, 3)\<close> of them is handed to \<open>executeOpportunities\<close>. The result is the sorted
  list, which the loop keeps as \<open>this.opportunities\<close>, and the slice. The clock reaches
  only the metadata of an estimate, which \<open>analyzePair\<close> does not pass on, so one reading
  stands for the readings of all the calls.
\<close>

definition detectOpportunities ::
  "estimator_config \<Rightarrow> int \<Rightarrow> opportunity list
     \<Rightarrow> detected_opportunity list \<times> detected_opportunity list" where
  "detectOpportunities cfg now candidates =
     (let detectedOpportunities = List.map_filter (analyzePair_estimate cfg now) candidates;
          sorted = sort_key (\<lambda>d. - estimatedProfit d) detectedOpportunities
      in (sorted, take 3 sorted))"

section \<open>The estimator of the specification\<close>





text \<open>The estimate a call returned, if it returned one.\<close>

fun result_estimate :: "estimate_result \<Rightarrow> estimate option" where
  "result_estimate (Estimate est) = Some est"
| "result_estimate (Rejected r) = None"
| "result_estimate (Failed r e) = None"

section \<open>Predicates used in the statements\<close>

definition weight_in_range :: "provider \<Rightarrow> bool" where
  "weight_in_range p \<longleftrightarrow> 1 / 10 \<le> weight (loadStats p) \<and> weight (loadStats p) \<le> 2"

definition all_clients :: "(provider \<Rightarrow> bool) \<Rightarrow> coordinator \<Rightarrow> bool" where
  "all_clients Q st \<longleftrightarrow> (\<forall>name p. clients st name = Some p \<longrightarrow> Q p)"

section \<open>Sample inputs\<close>

text \<open>
  The opportunity the repository's own self-test passes to the estimator, with a margin
  far above the threshold, and three variants: a gas price of zero, a price difference
  too small to cover the costs, and a price difference of 20.
\<close>

definition testOpportunity :: opportunity where
  "testOpportunity =
     \<lparr>priceDelta = Some (Num 50), volume = Some (Num 5000), gasPrice = Some (Num 20),
      flashLoanProvider = Some ''venus'', dexA = Some ''pancakeswap'', dexB = Some ''biswap'',
      liquidityA = Some (Num 1000000), liquidityB = Some (Num 1000000),
      ethPriceUsd = Some (Num 2000), opp_id = None, opp_chain = None\<rparr>"



definition wideMarginOpportunity :: opportunity where
  "wideMarginOpportunity = testOpportunity\<lparr>priceDelta := Some (Num 20)\<rparr>"





text \<open>High gas, shallow depth and a small price difference: all three reductions apply.\<close>

definition lowConfidenceOpportunity :: opportunity where
  "lowConfidenceOpportunity =
     \<lparr>priceDelta = Some (Num 200), volume = Some (Num 200000), gasPrice = Some (Num 60),
      flashLoanProvider = Some ''aave'', dexA = Some ''quickswap'', dexB = Some ''curve'',
      liquidityA = Some (Num 1500000), liquidityB = None,
      ethPriceUsd = Some (Num 2000), opp_id = None, opp_chain = None\<rparr>"

text \<open>A provider name that is no entry of the fee table but a member of every object.\<close>

definition inheritedNameOpportunity :: opportunity where
  "inheritedNameOpportunity = testOpportunity\<lparr>flashLoanProvider := Some ''constructor''\<rparr>"

text \<open>The result of a call with its clock reading replaced.\<close>

definition with_timestamp :: "int \<Rightarrow> estimate_result \<Rightarrow> estimate_result" where
  "with_timestamp t res =
     (case res of
        Estimate r \<Rightarrow> Estimate (r\<lparr>metadata := (metadata r)\<lparr>timestamp := t\<rparr>\<rparr>)
      | Rejected reason \<Rightarrow> Rejected reason
      | Failed reason e \<Rightarrow> Failed reason e)"

text \<open>
  A coordinator with three clients. \<open>P1\<close> and \<open>P2\<close> both offer \<open>pricing\<close>, \<open>P2\<close> and \<open>P3\<close>
  both offer \<open>trending\<close>. The breaker of \<open>P1\<close> opened at time 1000 and is due for retry
  at 61000; a health probe has marked \<open>P1\<close> healthy again since.
\<close>

definition openProvider :: provider where
  "openProvider =
     (initializeClientTracking [''pricing''] High 0)
       \<lparr>breaker := \<lparr>isOpen = True, failureCount = 5, lastFailureTime = Some 1000,
                    nextRetryTime = Some 61000\<rparr>,
        loadStats := \<lparr>weight = 1 / 10, currentLoad = 0, averageLoad = 0, stats_priority = High\<rparr>\<rparr>"

definition sample_coordinator :: coordinator where
  "sample_coordinator =
     \<lparr>config = default_coordinator_config, initialized = True,
      clientNames = [''P1'', ''P2'', ''P3''],
      clients = [''P1'' \<mapsto> openProvider,
                 ''P2'' \<mapsto> initializeClientTracking [''pricing'', ''trending''] Medium 0,
                 ''P3'' \<mapsto> initializeClientTracking [''trending''] Low 0],
      roundRobinCounters = Map.empty\<rparr>"

text \<open>
  A request for \<open>pricing\<close> that succeeds at once, a round of health probes, and a request
  for \<open>pricing\<close> on which every attempt on every client fails, with failover enabled.
\<close>

definition sample_events :: "event list" where
  "sample_events =
     [Route (\<lambda>name attempt. AttemptSucceeded 120) ''pricing'' 2000 None True 0 0,
      HealthRound (\<lambda>name. ProbePassed) 31000,
      Route (\<lambda>name attempt. AttemptFailed ''ECONNRESET'' 100) ''pricing'' 60999 (Some Weighted)
        True (1 / 2) (1 / 2)]"


text \<open>A client whose breaker is closed after four failures.\<close>

definition strainedProvider :: provider where
  "strainedProvider =
     (initializeClientTracking [''pricing''] High 0)
       \<lparr>breaker := \<lparr>isOpen = False, failureCount = 4, lastFailureTime = Some 1000,
                    nextRetryTime = None\<rparr>\<rparr>"

text \<open>
  A coordinator with that client and a second one, and a request on which every attempt
  on the first client fails after twenty seconds while the second answers.
\<close>

definition strained_coordinator :: coordinator where
  "strained_coordinator =
     \<lparr>config = default_coordinator_config, initialized = True,
      clientNames = [''P1'', ''P2''],
      clients = [''P1'' \<mapsto> strainedProvider,
                 ''P2'' \<mapsto> initializeClientTracking [''pricing''] Medium 0],
      roundRobinCounters = Map.empty\<rparr>"

definition slow_failure_request :: event where
  "slow_failure_request =
     Route (\<lambda>name attempt. if name = ''P1'' then AttemptFailed ''socket hang up'' 20000
                             else AttemptSucceeded 100)
           ''pricing'' 0 None True 0 0"

text \<open>A client after three failed requests in a row.\<close>

definition failingProvider :: provider where
  "failingProvider =
     updateFailureMetrics default_coordinator_config ''Request timeout'' 3000
       (updateFailureMetrics default_coordinator_config ''Request timeout'' 2000
          (updateFailureMetrics default_coordinator_config ''Request timeout'' 1000
             (initializeClientTracking [''pricing''] High 0)))"

definition sample_probes :: "string \<Rightarrow> probe" where
  "sample_probes name = (if name = ''P2'' then ProbeFailed ''probe failed'' else ProbePassed)"

text \<open>
  An engine that is running, collaborators that always find a flash-loan provider and a
  chain configuration without a gas price, and four opportunities of equal liquidity.
\<close>

definition sample_env :: engine_env where
  "sample_env =
     \<lparr>flashLoanProviderFor = (\<lambda>opp. Inr (Some ''venus'')), chainGasPrice = (\<lambda>c. Some None)\<rparr>"

definition running_engine :: engine where
  "running_engine = new_engine\<lparr>isRunning := True\<rparr>"

definition opp_a :: engine_opportunity where
  "opp_a = \<lparr>oppToken = ''a'', oppChain = ''bsc'', profitability = 2, liquidity = 100000,
            oppConfidence = 70, amount = Some 1000, expectedProfit = None, oppValidation = None\<rparr>"

definition opp_b :: engine_opportunity where
  "opp_b = opp_a\<lparr>oppToken := ''b'', profitability := 3 / 2, oppConfidence := 100\<rparr>"

definition opp_c :: engine_opportunity where
  "opp_c = opp_a\<lparr>oppToken := ''c'', profitability := 1, oppConfidence := 90\<rparr>"

definition opp_d :: engine_opportunity where
  "opp_d = opp_a\<lparr>oppToken := ''d'', profitability := 1 / 2, oppConfidence := 80\<rparr>"

definition engine_after_first_tick :: engine where
  "engine_after_first_tick =
     scanForOpportunities sample_env ''SCAN_1'' 5000 (Inr [opp_d]) running_engine"

section \<open>Properties of the profit estimator\<close>

lemmas estimator_defs =
  estimateProfit_def validateOpportunity_def calculateCosts_def calculateBaseProfit_def
  calculateSlippageImpact_def calculateConfidence_def getRecommendation_def get_property_def
  flashLoanFees_def dexFees_def parseUnits_gwei_def gasEstimates_def object_prototype_keys_def
  default_config_def Let_def


lemma estimateProfit_calc_error:
  "validateOpportunity opp \<Longrightarrow> calculateCosts cfg opp = Inl e \<Longrightarrow>
     estimateProfit cfg now opp = Failed ''Calculation error'' e"
  by (simp add: estimateProfit_def)

lemma estimateProfit_estimate:
  assumes "validateOpportunity opp" and "calculateCosts cfg opp = Inr cs"
  shows "\<exists>r. estimateProfit cfg now opp = Estimate r \<and>
           baseProfit r = calculateBaseProfit opp \<and> totalCosts r = total cs \<and>
           slippageImpact r = calculateSlippageImpact cfg opp \<and>
           netProfit r = jsub (jsub (baseProfit r) (totalCosts r)) (slippageImpact r) \<and>
           profitPercent r = jdiv (netProfit r) (num (volume opp)) \<and>
           profitable r = jge (profitPercent r) (Num (minProfitThreshold cfg)) \<and>
           confidence r = calculateConfidence cfg opp \<and>
           timestamp (metadata r) = now"
  using assms by (simp add: estimateProfit_def Let_def)

lemma estimate_is_valid:
  "estimateProfit cfg now opp = Estimate r \<Longrightarrow> validateOpportunity opp"
  by (auto simp: estimateProfit_def split: if_splits)

lemma estimate_has_costs:
  "estimateProfit cfg now opp = Estimate r \<Longrightarrow> \<exists>cs. calculateCosts cfg opp = Inr cs"
  by (cases "calculateCosts cfg opp") (auto simp: estimateProfit_def split: if_splits)




text \<open>
  Claim C2, as stated: two calls with equal opportunities return equal outputs. The
  output carries \<open>metadata.timestamp = Date.now()\<close>, so two calls at different clock
  readings differ.
\<close>

theorem estimateProfit_clock_counterexample:
  "estimateProfit default_config 1000 testOpportunity \<noteq>
   estimateProfit default_config 2000 testOpportunity"
  by (simp add: estimator_defs testOpportunity_def)

text \<open>
  Claim C2, amended. Under one configuration, two calls with equal opportunities return
  outputs that are equal in every property except \<open>metadata.timestamp\<close>, which is the
  clock reading of each call; in particular the verdict and the reason are the same.
\<close>

theorem estimateProfit_equal_up_to_timestamp:
  "estimateProfit cfg t1 opp = with_timestamp t1 (estimateProfit cfg t2 opp) \<and>
   result_profitable (estimateProfit cfg t1 opp) = result_profitable (estimateProfit cfg t2 opp) \<and>
   result_reason (estimateProfit cfg t1 opp) = result_reason (estimateProfit cfg t2 opp)"
  by (simp add: estimateProfit_def with_timestamp_def Let_def split: sum.splits)

text \<open>
  Claim C8. For an opportunity that carries both liquidity depths (non-zero numbers), the
  slippage impact is \<open>min (volume / depthA \<sqdot> 0.5 + volume / depthB \<sqdot> 0.5) maxSlippage\<close> times the
  volume, and the estimate subtracts it from the profit after costs before it compares
  the margin with the threshold.
\<close>

theorem slippage_cost_model:
  assumes "estimateProfit cfg now opp = Estimate r"
    and "volume opp = Some (Num v)"
    and "liquidityA opp = Some (Num depthA)" and "depthA \<noteq> 0"
    and "liquidityB opp = Some (Num depthB)" and "depthB \<noteq> 0"
  shows "calculateSlippageImpact cfg opp =
           Num (min (v / depthA * (1 / 2) + v / depthB * (1 / 2)) (maxSlippage cfg) * v) \<and>
         slippageImpact r = calculateSlippageImpact cfg opp \<and>
         netProfit r = jsub (jsub (baseProfit r) (totalCosts r)) (slippageImpact r) \<and>
         profitable r = jge (jdiv (netProfit r) (Num v)) (Num (minProfitThreshold cfg))"
proof -
  have s: "calculateSlippageImpact cfg opp =
           Num (min (v / depthA * (1 / 2) + v / depthB * (1 / 2)) (maxSlippage cfg) * v)"
    using assms(2-6) by (simp add: calculateSlippageImpact_def Let_def)
  from assms(1) have valid: "validateOpportunity opp"
    by (rule estimate_is_valid)
  from assms(1) obtain cs where cs: "calculateCosts cfg opp = Inr cs"
    by (auto dest: estimate_has_costs)
  from estimateProfit_estimate [OF valid cs, of now] assms(1,2) s show ?thesis
    by auto
qed

theorem slippage_cost_model_witness:
  "calculateSlippageImpact default_config testOpportunity = Num 5 \<and>
   (\<exists>r. estimateProfit default_config 0 testOpportunity = Estimate r \<and>
        slippageImpact r = Num 5 \<and> baseProfit r = Num 250000 \<and> totalCosts r = Num 542 \<and>
        netProfit r = Num 249453 \<and> profitable r)"
proof -
  obtain r where r: "estimateProfit default_config 0 testOpportunity = Estimate r"
    by (simp add: estimator_defs testOpportunity_def)
  have f: "volume testOpportunity = Some (Num 5000)"
    "liquidityA testOpportunity = Some (Num 1000000)" "(1000000::rat) \<noteq> 0"
    "liquidityB testOpportunity = Some (Num 1000000)" "(1000000::rat) \<noteq> 0"
    by (simp_all add: testOpportunity_def)
  from slippage_cost_model [OF r f] r show ?thesis
    by (auto simp: estimator_defs testOpportunity_def)
qed

text \<open>
  Claim C9, as stated: the factor 0.7 applies when the margin is below 0.5 percent. With
  a price difference of 20 on a volume of 5000 the estimate's net margin, its profit
  percent, is 19.89 and not below 0.5 percent, and the confidence is 0.7 all the same:
  what the code tests is the price difference divided by the volume, here 0.004.
\<close>

theorem margin_test_counterexample:
  "map_option (\<lambda>r. (profitPercent r, jlt (profitPercent r) (Num (5 / 1000)), confidence r))
     (result_estimate (estimateProfit default_config 0 wideMarginOpportunity)) =
     Some (Num (99453 / 5000), False, 7 / 10)"
  by (simp add: estimator_defs testOpportunity_def wideMarginOpportunity_def)

text \<open>
  Claim C9, amended. The confidence of an estimate is 1, multiplied by 0.8 when the gas
  price exceeds \<open>maxGasPriceGwei\<close>, by 0.6 when the smaller liquidity depth (a missing or
  zero depth counts as 1 000 000) is below ten times the volume, and by 0.7 when the
  price difference divided by the volume is below 0.005; the result is floored at 0.1.
  The net margin plays no part in it.
\<close>

theorem confidence_formula:
  assumes "estimateProfit cfg now opp = Estimate r"
    and "priceDelta opp = Some (Num p)" and "volume opp = Some (Num v)"
    and "gasPrice opp = Some (Num g)"
    and "or_default (liquidityA opp) 1000000 = Num depthA"
    and "or_default (liquidityB opp) 1000000 = Num depthB"
  shows "confidence r =
           max (1 * (if g > maxGasPriceGwei cfg then 8 / 10 else 1)
                  * (if min depthA depthB < 10 * v then 6 / 10 else 1)
                  * (if p / v < 5 / 1000 then 7 / 10 else 1))
               (1 / 10)"
proof -
  from assms(1) have valid: "validateOpportunity opp"
    by (rule estimate_is_valid)
  with assms(3) have v: "v \<noteq> 0"
    by (auto simp: validateOpportunity_def split: if_splits)
  from assms(1) obtain cs where cs: "calculateCosts cfg opp = Inr cs"
    by (auto dest: estimate_has_costs)
  from estimateProfit_estimate [OF valid cs, of now] assms(1)
  have "confidence r = calculateConfidence cfg opp" by auto
  with assms(2-6) v show ?thesis
    by (simp add: calculateConfidence_def Let_def mult.commute)
qed

theorem confidence_formula_witness:
  "\<exists>r. estimateProfit default_config 0 lowConfidenceOpportunity = Estimate r \<and>
       confidence r = 336 / 1000"
proof -
  obtain r where r: "estimateProfit default_config 0 lowConfidenceOpportunity = Estimate r"
    by (simp add: estimator_defs lowConfidenceOpportunity_def)
  have f: "priceDelta lowConfidenceOpportunity = Some (Num 200)"
    "volume lowConfidenceOpportunity = Some (Num 200000)"
    "gasPrice lowConfidenceOpportunity = Some (Num 60)"
    "or_default (liquidityA lowConfidenceOpportunity) 1000000 = Num 1500000"
    "or_default (liquidityB lowConfidenceOpportunity) 1000000 = Num 1000000"
    by (simp_all add: lowConfidenceOpportunity_def)
  from confidence_formula [OF r f] r show ?thesis
    by (auto simp: default_config_def)
qed

text \<open>
  Claim C10 at the provider name \<open>constructor\<close>. The name is no entry of the provider
  table, yet \<open>validateOpportunity\<close> accepts it, because the table lookup finds the member
  inherited from \<open>Object.prototype\<close> and tests only its truthiness. The fee then is
  \<open>NaN\<close>, the verdict is false, and the returned object is the full estimate, which has no
  reason.
\<close>

theorem unknown_provider_returned_without_reason:
  "map_of flashLoanFees ''constructor'' = None \<and>
   validateOpportunity inheritedNameOpportunity \<and>
   \<not> result_profitable (estimateProfit default_config 0 inheritedNameOpportunity) \<and>
   result_reason (estimateProfit default_config 0 inheritedNameOpportunity) = None"
  by (simp add: estimator_defs testOpportunity_def inheritedNameOpportunity_def)

theorem unknown_provider_returned_without_reason_witness:
  "\<exists>r. estimateProfit default_config 0 inheritedNameOpportunity = Estimate r \<and>
       flashLoanFee (costs r) = NaN \<and> totalCosts r = NaN \<and> \<not> profitable r"
  using unknown_provider_returned_without_reason
  by (simp add: estimator_defs testOpportunity_def inheritedNameOpportunity_def)

section \<open>Properties of the coordinator\<close>

lemma clients_update_client:
  "clients (update_client name f st) k =
     (if k = name then map_option f (clients st k) else clients st k)"
  by (simp add: update_client_def split: option.splits)

lemma update_client_fields [simp]:
  "clientNames (update_client name f st) = clientNames st"
  "config (update_client name f st) = config st"
  "initialized (update_client name f st) = initialized st"
  by (simp_all add: update_client_def split: option.splits)

lemma clients_update_all_clients:
  "clients (update_all_clients f st) k = map_option f (clients st k)"
  by (simp add: update_all_clients_def)

lemma update_all_clients_fields [simp]:
  "clientNames (update_all_clients f st) = clientNames st"
  "config (update_all_clients f st) = config st"
  "initialized (update_all_clients f st) = initialized st"
  by (simp_all add: update_all_clients_def)









lemma selectClient_clients:
  "selectClient xs opt r st = (res, st') \<Longrightarrow>
     clients st' = clients st \<and> clientNames st' = clientNames st \<and> config st' = config st"
  by (auto simp: selectClient_def selectByRoundRobin_def Let_def split: strategy.splits)



lemmas coordinator_defs =
  routeRequest_def executeRequest_def attemptFailover_def failoverCandidates_def
  executeRequestNoFailover_def callClient_def withTimeout_def withRetry.simps breaker_open_def
  getClientsForCapability_def selectClient_def
  selectByRoundRobin_def selectByWeight_def weight_of_def available_def
  update_client_def update_all_clients_def beginRequest_def endRequest_def
  updateSuccessMetrics_def updateFailureMetrics_def updateFailureMetricsUndefined_def
  performHealthChecks_def
  checkClientHealth_def checkCircuitBreakers_def checkCircuitBreaker_def
  updateLoadBalancingStats_def initializeClientTracking_def default_coordinator_config_def
  Let_def


text \<open>
  The retry loop outlives the timeout. On a client with four recorded failures every
  attempt fails after twenty seconds: the attempts start at 0, 21 and 43 seconds, the
  timeout at 30 seconds records the fifth failure and opens the breaker, the failover
  calls the second client, and the third attempt calls the first client at 43 seconds
  with its breaker open. The amended claim below says nothing about such attempts.
\<close>

lemma retry_outlives_timeout:
  "map (\<lambda>c. (callee c, calledAt c, breakerOpenAtCall c))
       (fst (step slow_failure_request strained_coordinator)) =
     [(''P1'', 0, False), (''P1'', 21000, False), (''P1'', 43000, True), (''P2'', 30000, False)]"
  by (simp add: slow_failure_request_def strained_coordinator_def strainedProvider_def
      coordinator_defs)




lemma all_clients_update_client:
  "all_clients Q st \<Longrightarrow> (\<And>p. Q p \<Longrightarrow> Q (f p)) \<Longrightarrow> all_clients Q (update_client n f st)"
  by (auto simp: all_clients_def clients_update_client split: if_splits)

lemma all_clients_update_all:
  "all_clients Q st \<Longrightarrow> (\<And>p. Q p \<Longrightarrow> Q (f p)) \<Longrightarrow> all_clients Q (update_all_clients f st)"
  by (auto simp: all_clients_def clients_update_all_clients)

lemma all_clients_fold:
  "all_clients Q st \<Longrightarrow> (\<And>name p. Q p \<Longrightarrow> Q (f name p)) \<Longrightarrow>
     all_clients Q (fold (\<lambda>name s. update_client name (f name) s) names st)"
  by (induction names arbitrary: st) (auto intro: all_clients_update_client)

lemma weight_updateSuccessMetrics:
  "weight (loadStats (updateSuccessMetrics rt p)) = min (weight (loadStats p) * (11 / 10)) 2"
  by (simp add: updateSuccessMetrics_def Let_def)

lemma weight_updateFailureMetrics:
  "weight (loadStats (updateFailureMetrics cfg msg now p)) = max (weight (loadStats p) * (8 / 10)) (1 / 10)"
  by (simp add: updateFailureMetrics_def Let_def)

lemma wir_success: "weight_in_range p \<Longrightarrow> weight_in_range (updateSuccessMetrics rt p)"
  by (simp add: weight_in_range_def weight_updateSuccessMetrics)

lemma wir_failure: "weight_in_range p \<Longrightarrow> weight_in_range (updateFailureMetrics cfg msg now p)"
  by (simp add: weight_in_range_def weight_updateFailureMetrics)

lemma wir_begin: "weight_in_range p \<Longrightarrow> weight_in_range (beginRequest t p)"
  by (simp add: weight_in_range_def beginRequest_def)

lemma wir_end: "weight_in_range p \<Longrightarrow> weight_in_range (endRequest p)"
  by (simp add: weight_in_range_def endRequest_def)

lemma wir_health: "weight_in_range p \<Longrightarrow> weight_in_range (checkClientHealth r now p)"
  by (simp add: weight_in_range_def checkClientHealth_def split: probe.splits)

lemma wir_breaker: "weight_in_range p \<Longrightarrow> weight_in_range (checkCircuitBreaker now p)"
  by (simp add: weight_in_range_def checkCircuitBreaker_def Let_def)

lemma wir_error: "weight_in_range p \<Longrightarrow> weight_in_range (handleClientError p)"
  by (simp add: weight_in_range_def handleClientError_def)

lemma wir_reconnected: "weight_in_range p \<Longrightarrow> weight_in_range (handleClientReconnected p)"
  by (simp add: weight_in_range_def handleClientReconnected_def)

lemmas wir_intros = wir_success wir_failure wir_begin wir_end wir_health wir_breaker wir_error
  wir_reconnected

lemma wir_failure_undefined:
  "weight_in_range p \<Longrightarrow> weight_in_range (updateFailureMetricsUndefined p)"
  by (simp add: weight_in_range_def updateFailureMetricsUndefined_def)

lemma wir_callClient:
  assumes "all_clients weight_in_range st"
    and "callClient operation n now st = (outcome, calls, st')"
  shows "all_clients weight_in_range st'"
proof -
  have st1: "all_clients weight_in_range (update_client n (beginRequest now) st)"
    using assms(1) by (intro all_clients_update_client wir_intros)
  from assms(2) have "st' =
      (case outcome of
         RetryResolved t \<Rightarrow>
           update_client n (updateSuccessMetrics (of_int (t - now)))
             (update_client n (beginRequest now) st)
       | RetryRejected None t \<Rightarrow>
           update_client n updateFailureMetricsUndefined (update_client n (beginRequest now) st)
       | RetryRejected (Some message) t \<Rightarrow>
           update_client n (updateFailureMetrics (config st) message t)
             (update_client n (beginRequest now) st))"
    by (auto simp: callClient_def Let_def)
  with st1 show ?thesis
    by (auto split: retry_result.splits option.splits
        intro!: all_clients_update_client wir_intros wir_failure_undefined)
qed

lemma wir_executeRequestNoFailover:
  assumes "all_clients weight_in_range st"
    and "executeRequestNoFailover env n now st = (res, calls, st')"
  shows "all_clients weight_in_range st'"
proof (cases "clients st n")
  case None
  with assms show ?thesis by (simp add: executeRequestNoFailover_def)
next
  case (Some q)
  obtain outcome calls1 st2 where cc: "callClient (env n) n now st = (outcome, calls1, st2)"
    by (cases "callClient (env n) n now st") auto
  from wir_callClient [OF assms(1) cc] have w2: "all_clients weight_in_range st2" .
  from assms(2) Some cc have "st' = update_client n endRequest st2"
    by (auto simp: executeRequestNoFailover_def split: retry_result.splits option.splits)
  with w2 show ?thesis by (auto intro!: all_clients_update_client wir_intros)
qed

lemma wir_attemptFailover:
  assumes "all_clients weight_in_range st"
    and "attemptFailover env failed now opt r st = (res, calls, st')"
  shows "all_clients weight_in_range st'"
proof -
  obtain sel st1 where sel: "selectClient (failoverCandidates st failed) opt r st = (sel, st1)"
    by (cases "selectClient (failoverCandidates st failed) opt r st")
  then have "clients st1 = clients st" by (auto dest: selectClient_clients)
  with assms(1) have "all_clients weight_in_range st1" by (simp add: all_clients_def)
  with assms sel show ?thesis
    by (auto simp: attemptFailover_def Let_def split: if_splits option.splits
        dest: wir_executeRequestNoFailover)
qed

lemma wir_executeRequest:
  assumes "all_clients weight_in_range st"
    and "executeRequest env fo n now opt r st = (res, calls, st')"
  shows "all_clients weight_in_range st'"
proof (cases "clients st n")
  case None
  with assms show ?thesis by (simp add: executeRequest_def)
next
  case (Some q)
  obtain outcome calls1 st2 where cc: "callClient (env n) n now st = (outcome, calls1, st2)"
    by (cases "callClient (env n) n now st") auto
  from wir_callClient [OF assms(1) cc] have w2: "all_clients weight_in_range st2" .
  show ?thesis
  proof (cases "\<exists>message t. outcome = RetryRejected (Some message) t \<and> fo")
    case False
    with assms(2) Some cc have "st' = update_client n endRequest st2"
      by (auto simp: executeRequest_def split: retry_result.splits option.splits if_splits)
    with w2 show ?thesis by (auto intro!: all_clients_update_client wir_intros)
  next
    case True
    then obtain message t where o: "outcome = RetryRejected (Some message) t" and fo: fo
      by blast
    obtain res2 calls2 st3 where
      af: "attemptFailover env n t opt r st2 = (res2, calls2, st3)"
      by (cases "attemptFailover env n t opt r st2") auto
    from wir_attemptFailover [OF w2 af] have "all_clients weight_in_range st3" .
    moreover from assms(2) Some cc o fo af
    have "st' = update_client n endRequest st3"
      by (auto simp: executeRequest_def)
    ultimately show ?thesis by (auto intro!: all_clients_update_client wir_intros)
  qed
qed

lemma wir_routeRequest:
  assumes "all_clients weight_in_range st"
    and "routeRequest env cap now opt fo r rf st = (res, calls, st')"
  shows "all_clients weight_in_range st'"
proof -
  obtain sel st1 where sel: "selectClient (getClientsForCapability st cap) opt r st = (sel, st1)"
    by (cases "selectClient (getClientsForCapability st cap) opt r st")
  then have "clients st1 = clients st" by (auto dest: selectClient_clients)
  with assms(1) have "all_clients weight_in_range st1" by (simp add: all_clients_def)
  with assms sel show ?thesis
    by (auto simp: routeRequest_def Let_def split: if_splits option.splits
        dest: wir_executeRequest)
qed

lemma wir_performHealthChecks:
  assumes "all_clients weight_in_range st"
  shows "all_clients weight_in_range (performHealthChecks probes now st)"
  unfolding performHealthChecks_def updateLoadBalancingStats_def checkCircuitBreakers_def
  using assms
  by (intro all_clients_update_all all_clients_fold wir_intros)
     (simp_all add: weight_in_range_def Let_def)

lemma wir_step:
  assumes "all_clients weight_in_range st" and "step e st = (called, st')"
  shows "all_clients weight_in_range st'"
proof (cases e)
  case (Route env cap now opt fo r rf)
  with assms show ?thesis
    by (auto split: prod.splits dest: wir_routeRequest)
next
  case (HealthRound probes now)
  with assms show ?thesis by (auto intro: wir_performHealthChecks)
next
  case (ClientError name)
  with assms show ?thesis by (auto intro!: all_clients_update_client wir_intros)
next
  case (ClientReconnected name)
  with assms show ?thesis by (auto intro!: all_clients_update_client wir_intros)
qed

lemma wir_run:
  "all_clients weight_in_range st \<Longrightarrow> all_clients weight_in_range (snd (run events st))"
proof (induction events arbitrary: st)
  case Nil
  then show ?case by simp
next
  case (Cons e es)
  obtain called st1 where s: "step e st = (called, st1)" by (cases "step e st")
  from wir_step [OF Cons.prems s] have "all_clients weight_in_range st1" .
  from Cons.IH [OF this] s show ?case by (auto split: prod.splits)
qed

text \<open>
  Claim C6. If every client's weight lies in \<open>[0.1, 2.0]\<close>, it still does after any
  sequence of coordinator operations (routed requests with their failover, health rounds,
  client error and reconnection events). A recorded success replaces the weight \<open>w\<close> by
  \<open>min (1.1 w) 2.0\<close>, a recorded failure by \<open>max (0.8 w) 0.1\<close>, and a client starts with the
  weight \<open>1.0\<close>.
\<close>

theorem weight_stays_in_range:
  assumes "\<forall>name p. clients st name = Some p \<longrightarrow>
             1 / 10 \<le> weight (loadStats p) \<and> weight (loadStats p) \<le> 2"
  shows "(\<forall>name p. clients (snd (run events st)) name = Some p \<longrightarrow>
             1 / 10 \<le> weight (loadStats p) \<and> weight (loadStats p) \<le> 2) \<and>
         weight (loadStats (updateSuccessMetrics responseTime q)) =
           min (weight (loadStats q) * (11 / 10)) 2 \<and>
         weight (loadStats (updateFailureMetrics cfg message now q)) =
           max (weight (loadStats q) * (8 / 10)) (1 / 10) \<and>
         weight (loadStats (initializeClientTracking caps prio now)) = 1"
proof -
  from assms have "all_clients weight_in_range st"
    by (simp add: all_clients_def weight_in_range_def)
  then have "all_clients weight_in_range (snd (run events st))" by (rule wir_run)
  then show ?thesis
    by (simp add: all_clients_def weight_in_range_def weight_updateSuccessMetrics
        weight_updateFailureMetrics initializeClientTracking_def)
qed

theorem weight_stays_in_range_witness:
  "(\<exists>p. clients (snd (run sample_events sample_coordinator)) ''P1'' = Some p \<and>
        1 / 10 \<le> weight (loadStats p) \<and> weight (loadStats p) \<le> 2) \<and>
   (\<exists>p. clients (snd (run sample_events sample_coordinator)) ''P2'' = Some p \<and>
        weight (loadStats p) = 88 / 100) \<and>
   (\<exists>p. clients (snd (run sample_events sample_coordinator)) ''P3'' = Some p \<and>
        weight (loadStats p) = 8 / 10)"
proof -
  have a: "\<forall>name p. clients sample_coordinator name = Some p \<longrightarrow>
             1 / 10 \<le> weight (loadStats p) \<and> weight (loadStats p) \<le> 2"
    by (simp add: sample_coordinator_def openProvider_def initializeClientTracking_def)
  have inv: "\<forall>name p. clients (snd (run sample_events sample_coordinator)) name = Some p \<longrightarrow>
             1 / 10 \<le> weight (loadStats p) \<and> weight (loadStats p) \<le> 2"
    using weight_stays_in_range [OF a, of sample_events] by blast
  have b: "\<exists>p. clients (snd (run sample_events sample_coordinator)) ''P1'' = Some p"
    by (simp add: sample_events_def sample_coordinator_def openProvider_def coordinator_defs)
  have c: "\<exists>p. clients (snd (run sample_events sample_coordinator)) ''P2'' = Some p \<and>
        weight (loadStats p) = 88 / 100"
    by (simp add: sample_events_def sample_coordinator_def openProvider_def coordinator_defs)
  have d: "\<exists>p. clients (snd (run sample_events sample_coordinator)) ''P3'' = Some p \<and>
        weight (loadStats p) = 8 / 10"
    by (simp add: sample_events_def sample_coordinator_def openProvider_def coordinator_defs)
  from inv b c d show ?thesis by blast
qed

text \<open>
  Claim C7, as stated: a client becomes unhealthy only after three failed probes in a
  row, each of which increments the consecutive-error counter, and a recovery resets the
  weight to 1.0. One failed probe marks a freshly registered client unhealthy and leaves
  its counter at 0; a passed probe makes a client healthy again after three failed
  requests and leaves its weight at \<open>0.8\<^sup>3 = 0.512\<close>.
\<close>

theorem single_failed_probe_counterexample:
  "\<not> isHealthy (clientInfo (checkClientHealth (ProbeFailed ''probe failed'') 30000
        (initializeClientTracking [''pricing''] High 0))) \<and>
   consecutiveErrors (health (checkClientHealth (ProbeFailed ''probe failed'') 30000
        (initializeClientTracking [''pricing''] High 0))) = 0 \<and>
   \<not> isHealthy (clientInfo failingProvider) \<and>
   isHealthy (clientInfo (checkClientHealth ProbePassed 30000 failingProvider)) \<and>
   weight (loadStats (checkClientHealth ProbePassed 30000 failingProvider)) = 64 / 125"
  by (simp add: failingProvider_def checkClientHealth_def updateFailureMetrics_def
      initializeClientTracking_def default_coordinator_config_def Let_def)

lemma fold_update_client_establishes:
  assumes "clients st k = Some p" and "I p" and "k \<in> set names \<or> R p"
    and "\<And>q. I q \<Longrightarrow> I (f k q) \<and> R (f k q)"
  shows "\<exists>p'. clients (fold (\<lambda>name s. update_client name (f name) s) names st) k = Some p' \<and>
              I p' \<and> R p'"
  using assms(1-3)
proof (induction names arbitrary: st p)
  case Nil
  then show ?case by simp
next
  case (Cons a names)
  show ?case
  proof (cases "a = k")
    case True
    with Cons.prems assms(4) [of p]
    have "clients (update_client a (f a) st) k = Some (f k p)" "I (f k p)" "R (f k p)"
      by (auto simp: clients_update_client)
    from Cons.IH [OF this(1,2)] this(3) show ?thesis by simp
  next
    case False
    with Cons.prems have "clients (update_client a (f a) st) k = Some p" "k \<in> set names \<or> R p"
      by (auto simp: clients_update_client)
    from Cons.IH [OF this(1) Cons.prems(2) this(2)] show ?thesis by simp
  qed
qed

text \<open>
  Claim C7, amended. After a round of health monitoring a registered client is healthy
  exactly when its probe in that round passed: a single failed probe marks it unhealthy,
  a single passed probe recovers it. The probe changes neither the consecutive-error
  counter nor the weight. The threshold of three consecutive errors belongs to routed
  requests: a failed request leaves a client healthy only if it was healthy and this
  failure is not its third consecutive error.
\<close>

theorem health_probe_effects:
  assumes "name \<in> set (clientNames st)" and "clients st name = Some p"
  shows "(\<exists>p'. clients (performHealthChecks probes now st) name = Some p' \<and>
               isHealthy (clientInfo p') = (probes name = ProbePassed) \<and>
               consecutiveErrors (health p') = consecutiveErrors (health p) \<and>
               weight (loadStats p') = weight (loadStats p)) \<and>
         isHealthy (clientInfo (updateFailureMetrics cfg message failedAt p)) =
           (isHealthy (clientInfo p) \<and> consecutiveErrors (health p) + 1 < 3)"
proof -
  let ?I = "\<lambda>q. consecutiveErrors (health q) = consecutiveErrors (health p) \<and>
                 weight (loadStats q) = weight (loadStats p)"
  let ?R = "\<lambda>q. isHealthy (clientInfo q) = (probes name = ProbePassed)"
  have "\<exists>p1. clients (fold (\<lambda>n s. update_client n (checkClientHealth (probes n) now) s)
                       (clientNames st) st) name = Some p1 \<and> ?I p1 \<and> ?R p1"
    by (rule fold_update_client_establishes [where I = ?I and R = ?R, OF assms(2)])
       (use assms(1) in \<open>auto simp: checkClientHealth_def split: probe.splits\<close>)
  then obtain p1 where p1:
    "clients (fold (\<lambda>n s. update_client n (checkClientHealth (probes n) now) s)
                       (clientNames st) st) name = Some p1"
    "consecutiveErrors (health p1) = consecutiveErrors (health p)"
    "weight (loadStats p1) = weight (loadStats p)"
    "isHealthy (clientInfo p1) = (probes name = ProbePassed)"
    by blast
  define p2 where "p2 = checkCircuitBreaker now p1"
  have p2: "consecutiveErrors (health p2) = consecutiveErrors (health p)"
    "weight (loadStats p2) = weight (loadStats p)"
    "isHealthy (clientInfo p2) = (probes name = ProbePassed)"
    using p1(2-4) by (simp_all add: p2_def checkCircuitBreaker_def Let_def)
  from p1(1) have "\<exists>p'. clients (performHealthChecks probes now st) name = Some p' \<and>
               isHealthy (clientInfo p') = isHealthy (clientInfo p2) \<and>
               consecutiveErrors (health p') = consecutiveErrors (health p2) \<and>
               weight (loadStats p') = weight (loadStats p2)"
    by (simp add: performHealthChecks_def updateLoadBalancingStats_def checkCircuitBreakers_def
        clients_update_all_clients Let_def p2_def)
  with p2 have "\<exists>p'. clients (performHealthChecks probes now st) name = Some p' \<and>
               isHealthy (clientInfo p') = (probes name = ProbePassed) \<and>
               consecutiveErrors (health p') = consecutiveErrors (health p) \<and>
               weight (loadStats p') = weight (loadStats p)"
    by auto
  moreover have "isHealthy (clientInfo (updateFailureMetrics cfg message failedAt p)) =
           (isHealthy (clientInfo p) \<and> consecutiveErrors (health p) + 1 < 3)"
    by (auto simp: updateFailureMetrics_def Let_def)
  ultimately show ?thesis by blast
qed

theorem health_probe_effects_witness:
  "(\<exists>p'. clients (performHealthChecks sample_probes 30000 sample_coordinator) ''P2'' = Some p' \<and>
         \<not> isHealthy (clientInfo p') \<and> consecutiveErrors (health p') = 0 \<and>
         weight (loadStats p') = 1) \<and>
   isHealthy (clientInfo (updateFailureMetrics default_coordinator_config ''Request timeout'' 1000
        (initializeClientTracking [''pricing'', ''trending''] Medium 0)))"
proof -
  have a: "''P2'' \<in> set (clientNames sample_coordinator)"
    by (simp add: sample_coordinator_def)
  have b: "clients sample_coordinator ''P2'' =
             Some (initializeClientTracking [''pricing'', ''trending''] Medium 0)"
    by (simp add: sample_coordinator_def)
  from health_probe_effects [OF a b, of sample_probes 30000 default_coordinator_config
      "''Request timeout''" 1000]
  show ?thesis
    by (simp add: sample_probes_def initializeClientTracking_def)
qed

section \<open>Properties of the arbitrage engine\<close>

lemmas engine_defs =
  scanForOpportunities_def rankOpportunities_def score_def engine_validateOpportunity_def
  estimateGasCost_def checkDEXLiquidity_def calculateOptimalTradeSize_def new_engine_def Let_def

lemma ln_100000_pos: "0 < ln (100000::real)"
  by simp

lemma sorted_rankOpportunities:
  "sorted_wrt (\<lambda>a b. score b \<le> score a) (rankOpportunities xs)"
proof -
  have "sorted (map (\<lambda>a. - score a) (sort_key (\<lambda>a. - score a) xs))"
    by (rule sorted_sort_key)
  then show ?thesis
    by (simp add: rankOpportunities_def sorted_map)
qed

lemma mset_rankOpportunities: "mset (rankOpportunities xs) = mset xs"
  by (simp add: rankOpportunities_def)

lemma length_rankOpportunities: "length (rankOpportunities xs) = length xs"
  by (simp add: rankOpportunities_def)

lemma executionQueue_scan:
  "executionQueue (scanForOpportunities env sid now fetched st) =
     executionQueue st @
     (if isRunning st
      then (case fetched of
              Inl message \<Rightarrow> []
            | Inr opportunities \<Rightarrow>
                map (\<lambda>opp. \<lparr>queuedOpportunity = opp, scanId = sid, queuedAt = now\<rparr>)
                    (rankOpportunities (filterOpportunities env st opportunities)))
      else [])"
  by (auto simp: scanForOpportunities_def Let_def rankOpportunities_def split: sum.splits)

lemma profitable_estimate_numeric:
  assumes "estimateProfit cfg now opp = Estimate r" and "profitable r"
  shows "\<exists>profit. netProfit r = Num profit"
proof -
  from assms(1) have valid: "validateOpportunity opp"
    by (rule estimate_is_valid)
  from assms(1) obtain cs where cs: "calculateCosts cfg opp = Inr cs"
    by (auto dest: estimate_has_costs)
  from assms valid cs
  have "jge (jdiv (netProfit r) (num (volume opp))) (Num (minProfitThreshold cfg))"
    by (auto simp: estimateProfit_def Let_def)
  then show ?thesis
    by (cases "netProfit r") auto
qed

text \<open>
  The detection loop keeps its detected opportunities sorted by estimated profit,
  descending, and hands on the first three of them at most.
\<close>

lemma detectOpportunities_top_three:
  "snd (detectOpportunities cfg now candidates) =
     take 3 (fst (detectOpportunities cfg now candidates)) \<and>
   length (snd (detectOpportunities cfg now candidates)) \<le> 3 \<and>
   sorted_wrt (\<lambda>a b. estimatedProfit b \<le> estimatedProfit a)
     (fst (detectOpportunities cfg now candidates)) \<and>
   mset (fst (detectOpportunities cfg now candidates)) =
     mset (List.map_filter (analyzePair_estimate cfg now) candidates)"
proof -
  have "sorted (map (\<lambda>d. - estimatedProfit d)
          (sort_key (\<lambda>d. - estimatedProfit d)
             (List.map_filter (analyzePair_estimate cfg now) candidates)))"
    by (rule sorted_sort_key)
  then show ?thesis
    by (simp add: detectOpportunities_def Let_def sorted_map)
qed

text \<open>
  The scanner of the engine sorts the opportunities that pass the filter by the score
  \<open>profitability \<sqdot> confidence \<sqdot> ln liquidity / 1000\<close>, descending, and appends every one of
  them to the execution queue in that order.
\<close>

lemma scan_ranks_by_score_and_queues_all:
  assumes "isRunning st"
  shows "map queuedOpportunity
           (executionQueue (scanForOpportunities env sid now (Inr opportunities) st)) =
         map queuedOpportunity (executionQueue st) @
         rankOpportunities (filterOpportunities env st opportunities) \<and>
         sorted_wrt (\<lambda>a b. score b \<le> score a)
           (rankOpportunities (filterOpportunities env st opportunities)) \<and>
         mset (rankOpportunities (filterOpportunities env st opportunities)) =
           mset (filterOpportunities env st opportunities)"
  using assms
  by (simp add: executionQueue_scan sorted_rankOpportunities mset_rankOpportunities comp_def)


lemma filter_replicate_opp_a:
  "length (filterOpportunities sample_env running_engine (replicate n opp_a)) = n"
  by (induction n)
     (simp_all add: sample_env_def running_engine_def opp_a_def engine_defs)

text \<open>
  Claim C5, as stated: the queue is bounded at its capacity and keeps the top entries by
  rank. A single tick with 65 valid opportunities leaves 65 entries in the queue, above
  the default capacity of 64; and a tick appends its opportunities behind an entry queued
  earlier, although all of them rank higher.
\<close>

theorem queue_exceeds_capacity_counterexample:
  "length (executionQueue (scanForOpportunities sample_env ''SCAN_1'' 5000
      (Inr (replicate 65 opp_a)) running_engine)) = 65 \<and>
   map (\<lambda>q. oppToken (queuedOpportunity q))
       (executionQueue (scanForOpportunities sample_env ''SCAN_2'' 10000 (Inr [opp_c, opp_a, opp_b])
          (scanForOpportunities sample_env ''SCAN_1'' 5000 (Inr [opp_d]) running_engine))) =
     [''d'', ''b'', ''a'', ''c'']"
proof -
  have "length (executionQueue (scanForOpportunities sample_env ''SCAN_1'' 5000
      (Inr (replicate 65 opp_a)) running_engine)) = 65"
    by (simp add: executionQueue_scan length_rankOpportunities filter_replicate_opp_a)
       (simp add: running_engine_def new_engine_def)
  moreover have "map (\<lambda>q. oppToken (queuedOpportunity q))
       (executionQueue (scanForOpportunities sample_env ''SCAN_2'' 10000 (Inr [opp_c, opp_a, opp_b])
          (scanForOpportunities sample_env ''SCAN_1'' 5000 (Inr [opp_d]) running_engine))) =
     [''d'', ''b'', ''a'', ''c'']"
    using ln_100000_pos
    by (simp add: sample_env_def running_engine_def opp_a_def opp_b_def opp_c_def opp_d_def
        engine_defs)
  ultimately show ?thesis by simp
qed

text \<open>
  Claim C5, amended. The execution queue has no capacity: a tick of a running engine
  appends every opportunity that passes the filter behind the entries already queued,
  so the queue grows by their number, the earlier entries stay at the front in their
  order, and nothing is dropped; a tick whose fetch fails leaves the queue as it was.
\<close>

theorem queue_keeps_every_entry:
  assumes "isRunning st"
  shows "length (executionQueue (scanForOpportunities env sid now (Inr opportunities) st)) =
           length (executionQueue st) + length (filterOpportunities env st opportunities) \<and>
         take (length (executionQueue st))
           (executionQueue (scanForOpportunities env sid now (Inr opportunities) st)) =
           executionQueue st \<and>
         executionQueue (scanForOpportunities env sid now (Inl message) st) = executionQueue st"
  using assms by (simp add: executionQueue_scan length_rankOpportunities)

theorem queue_keeps_every_entry_witness:
  "length (executionQueue (scanForOpportunities sample_env ''SCAN_2'' 10000
      (Inr [opp_c, opp_a, opp_b]) engine_after_first_tick)) = 4 \<and>
   map (\<lambda>q. oppToken (queuedOpportunity q))
     (take 1 (executionQueue (scanForOpportunities sample_env ''SCAN_2'' 10000
        (Inr [opp_c, opp_a, opp_b]) engine_after_first_tick))) = [''d'']"
proof -
  have r: "isRunning engine_after_first_tick"
    by (simp add: engine_after_first_tick_def running_engine_def scanForOpportunities_def Let_def)
  have q: "map (\<lambda>q. oppToken (queuedOpportunity q)) (executionQueue engine_after_first_tick) = [''d'']"
    by (simp add: engine_after_first_tick_def sample_env_def running_engine_def opp_a_def
        opp_d_def engine_defs)
  then have l: "length (executionQueue engine_after_first_tick) = 1"
    by (metis length_map length_Cons list.size(3) One_nat_def)
  have f: "length (filterOpportunities sample_env engine_after_first_tick [opp_c, opp_a, opp_b]) = 3"
    by (simp add: engine_after_first_tick_def sample_env_def running_engine_def opp_a_def
        opp_b_def opp_c_def engine_defs)
  from queue_keeps_every_entry [OF r, of sample_env "''SCAN_2''" 10000 "[opp_c, opp_a, opp_b]"]
    q l f
  show ?thesis by simp
qed

end
